theory Spec2Isabelle
  imports Main "HOL-Library.Sublist"
begin

section \<open>The notebook \<open>lecture_4/pin_cheat_list.ipynb\<close> as a program over its libraries\<close>

text \<open>
  The repository is one Jupyter notebook. Its code cells call three third-party libraries
  (trimesh, pinocchio, meshcat) and a few Python built-ins; nothing is computed by the
  notebook itself. The model keeps the notebook's code as it is written (every cell, every
  statement, in order) and leaves the libraries open: a library is an arbitrary function
  from the operation, its arguments and the state of the outside world to either an
  exception or a result together with the new state of the world. Theorems about the notebook
  therefore hold for every behaviour of the libraries.

  What the libraries compute (masses, inertia tensors, rigid transforms, joint placements) is
  kept as opaque objects. Statements about those numbers are statements about trimesh,
  pinocchio and their floating-point arithmetic, whose code is not part of the repository;
  they are outside this model.
\<close>

subsection \<open>Python values\<close>

text \<open>
  The literals that occur in the notebook, and references to objects made by the libraries.
  A float literal is kept as the decimal it is written as: \<open>VFloat m d\<close> is \<open>m / 10^d\<close>,
  so \<open>.4\<close> is \<open>VFloat 4 1\<close> and \<open>.05\<close> is \<open>VFloat 5 2\<close>. A keyword argument
  \<open>name=v\<close> of a call is \<open>VKw name v\<close>. An object is opaque: \<open>VObj n\<close> is the
  \<open>n\<close>-th object of the world, and what it holds is known to the libraries only.
\<close>

datatype val =
    VNone
  | VBool bool
  | VInt int
  | VFloat int nat
  | VStr string
  | VList "val list"
  | VKw string val
  | VObj nat

subsection \<open>Operations\<close>

text \<open>
  What a statement of the notebook asks of the interpreter and the libraries.
  \<^item> \<open>Import m\<close> is \<open>import m\<close> (also \<open>import m as a\<close>), \<open>ImportFrom m n\<close> is
    \<open>from m import n\<close>; the result is the module or name bound.
  \<^item> \<open>Call p\<close> calls the function, constructor or method reached by the dotted path
    \<open>p\<close> from its first argument: \<open>tr.primitives.Box(extents=e)\<close> is
    \<open>Call ''primitives.Box''\<close> on \<open>[tr, extents=e]\<close>, and \<open>viz.clean()\<close> is
    \<open>Call ''clean''\<close> on \<open>[viz]\<close>.
  \<^item> \<open>Invoke\<close> calls its first argument, a name bound by \<open>from ... import\<close>.
  \<^item> \<open>GetAttr a\<close> reads \<open>x.a\<close>, \<open>SetAttr a\<close> is the assignment \<open>x.a = v\<close>,
    \<open>GetItem\<close> is \<open>x[i]\<close>, \<open>TrueDiv\<close> is \<open>x / y\<close> and \<open>Mul\<close> is \<open>x * y\<close>.
  \<^item> \<open>FString t\<close> formats the f-string \<open>t\<close> with the values of its fields.
  \<^item> \<open>Hasattr\<close> and \<open>Print\<close> are the built-ins \<open>hasattr\<close> and \<open>print\<close>.
  \<^item> \<open>Display\<close> is the notebook showing the value of the expression that ends a cell.
\<close>

datatype op =
    Import string
  | ImportFrom string string
  | Call string
  | Invoke
  | GetAttr string
  | SetAttr string
  | GetItem
  | TrueDiv
  | Mul
  | FString string
  | Hasattr
  | Print
  | Display

subsection \<open>Libraries, the world, and the record of a run\<close>

text \<open>
  An event is one operation as it happened: the cell it belongs to (the index of the cell in
  the notebook file, counting markdown cells, from 0), the operation, its arguments, and what
  came back: \<open>Inl e\<close> when the operation raised the exception \<open>e\<close>, \<open>Inr v\<close> when it
  returned \<open>v\<close>.
\<close>

datatype 'e event =
  Event (cell_of: nat) (op_of: op) (args_of: "val list") (result_of: "'e + val")

text \<open>
  The libraries and the interpreter's built-ins. \<open>'e\<close> is the type of exceptions and
  \<open>'w\<close> the state of everything outside the notebook (objects, files, the viewer, the
  random generator). Most operations produce one object. Two are used by the notebook in a
  way that fixes the form of their result: the result of \<open>pin.buildModelsFromUrdf\<close> is
  unpacked into three variables, and the result of \<open>hasattr\<close> is a truth value.
\<close>

record ('e, 'w) lib =
  api :: "op \<Rightarrow> val list \<Rightarrow> 'w \<Rightarrow> ('e + nat) \<times> 'w"
  api3 :: "op \<Rightarrow> val list \<Rightarrow> 'w \<Rightarrow> ('e + nat \<times> nat \<times> nat) \<times> 'w"
  api_bool :: "op \<Rightarrow> val list \<Rightarrow> 'w \<Rightarrow> ('e + bool) \<times> 'w"

record ('e, 'w) kernel =
  world :: 'w
  trace :: "'e event list"

text \<open>
  A piece of notebook code takes the kernel's state and either raises or returns a value;
  the state is kept in both cases. \<open>bindN\<close> is the sequencing of statements: when the
  first raises, the rest is not run and the exception is the outcome. The notebook has no
  \<open>try\<close>, so there is no other way to combine two statements.
\<close>

type_synonym ('e, 'w, 'a) code = "('e, 'w) kernel \<Rightarrow> ('e + 'a) \<times> ('e, 'w) kernel"

definition returnN :: "'a \<Rightarrow> ('e, 'w, 'a) code" where
  "returnN x s = (Inr x, s)"

definition bindN :: "('e, 'w, 'a) code \<Rightarrow> ('a \<Rightarrow> ('e, 'w, 'b) code) \<Rightarrow> ('e, 'w, 'b) code" where
  "bindN m f s = (case m s of (Inl e, s') \<Rightarrow> (Inl e, s') | (Inr x, s') \<Rightarrow> f x s')"

text \<open>
  The three calls record what they did. \<open>call\<close> is an operation that gives one object,
  \<open>call3\<close> one whose result is unpacked into three variables (the event keeps the three
  objects as a list), \<open>call_bool\<close> one that gives a truth value. An operation that raises
  is recorded too, and the world is the one the library left.
\<close>

definition call :: "('e, 'w) lib \<Rightarrow> nat \<Rightarrow> op \<Rightarrow> val list \<Rightarrow> ('e, 'w, nat) code" where
  "call L k f args s =
     (case api L f args (world s) of
        (r, w) \<Rightarrow> (r, s\<lparr>world := w, trace := trace s @ [Event k f args (map_sum id VObj r)]\<rparr>))"

definition tuple3 :: "nat \<times> nat \<times> nat \<Rightarrow> val" where
  "tuple3 p = (case p of (a, b, c) \<Rightarrow> VList [VObj a, VObj b, VObj c])"

definition call3 ::
  "('e, 'w) lib \<Rightarrow> nat \<Rightarrow> op \<Rightarrow> val list \<Rightarrow> ('e, 'w, nat \<times> nat \<times> nat) code" where
  "call3 L k f args s =
     (case api3 L f args (world s) of
        (r, w) \<Rightarrow> (r, s\<lparr>world := w, trace := trace s @ [Event k f args (map_sum id tuple3 r)]\<rparr>))"

definition call_bool :: "('e, 'w) lib \<Rightarrow> nat \<Rightarrow> op \<Rightarrow> val list \<Rightarrow> ('e, 'w, bool) code" where
  "call_bool L k f args s =
     (case api_bool L f args (world s) of
        (r, w) \<Rightarrow> (r, s\<lparr>world := w, trace := trace s @ [Event k f args (map_sum id VBool r)]\<rparr>))"

subsection \<open>The code cells\<close>

text \<open>
  Each code cell is a definition named after its index in the notebook file. A cell takes the
  session variables it reads and returns the ones later cells read. A cell that ends in an
  expression statement hands the value of that expression to \<open>Display\<close>.
\<close>

text \<open>Cell 2: the box of \<open>body_one\<close>.
  \<^verbatim>\<open>
  import trimesh as tr
  box_one = tr.primitives.Box(extents = [.4, .2, .1])
  box_one.density = 7800 # ~steel
  print(f'mass = {box_one.mass}') # [kg]
  print(f'inertia = {box_one.moment_inertia}') # [kg * m**2]
  \<close>\<close>

definition cell_2 :: "('e, 'w) lib \<Rightarrow> ('e, 'w, nat \<times> nat) code" where
  "cell_2 L =
     bindN (call L 2 (Import ''trimesh'') []) (\<lambda>tr.
     bindN (call L 2 (Call ''primitives.Box'')
              [VObj tr, VKw ''extents'' (VList [VFloat 4 1, VFloat 2 1, VFloat 1 1])]) (\<lambda>box_one.
     bindN (call L 2 (SetAttr ''density'') [VObj box_one, VInt 7800]) (\<lambda>_.
     bindN (call L 2 (GetAttr ''mass'') [VObj box_one]) (\<lambda>mass.
     bindN (call L 2 (FString ''mass = {box_one.mass}'') [VObj mass]) (\<lambda>line.
     bindN (call L 2 Print [VObj line]) (\<lambda>_.
     bindN (call L 2 (GetAttr ''moment_inertia'') [VObj box_one]) (\<lambda>inertia.
     bindN (call L 2 (FString ''inertia = {box_one.moment_inertia}'') [VObj inertia]) (\<lambda>line.
     bindN (call L 2 Print [VObj line]) (\<lambda>out.
     bindN (call L 2 Display [VObj out]) (\<lambda>_.
     returnN (tr, box_one)))))))))))"

text \<open>Cell 4: the cylinder of \<open>body_two\<close>.
  \<^verbatim>\<open>
  cylinder = tr.primitives.Cylinder(radius=.05, height=.15)
  cylinder_mass = 5
  cylinder.density = cylinder_mass / cylinder.volume
  print(cylinder.moment_inertia)
  \<close>\<close>

definition cylinder_mass :: val where
  "cylinder_mass = VInt 5"

definition cell_4 :: "('e, 'w) lib \<Rightarrow> nat \<Rightarrow> ('e, 'w, nat) code" where
  "cell_4 L tr =
     bindN (call L 4 (Call ''primitives.Cylinder'')
              [VObj tr, VKw ''radius'' (VFloat 5 2), VKw ''height'' (VFloat 15 2)]) (\<lambda>cylinder.
     bindN (call L 4 (GetAttr ''volume'') [VObj cylinder]) (\<lambda>volume.
     bindN (call L 4 TrueDiv [cylinder_mass, VObj volume]) (\<lambda>density.
     bindN (call L 4 (SetAttr ''density'') [VObj cylinder, VObj density]) (\<lambda>_.
     bindN (call L 4 (GetAttr ''moment_inertia'') [VObj cylinder]) (\<lambda>inertia.
     bindN (call L 4 Print [VObj inertia]) (\<lambda>out.
     bindN (call L 4 Display [VObj out]) (\<lambda>_.
     returnN cylinder)))))))"

text \<open>Cell 6: the cylinder is rotated.
  \<^verbatim>\<open>
  rotation = tr.transformations.euler_matrix(1, 0, 0, axes='sxyz')
  cylinder.apply_transform(rotation)
  cylinder.show()
  print(cylinder.moment_inertia)
  \<close>\<close>

definition cell_6 :: "('e, 'w) lib \<Rightarrow> nat \<Rightarrow> nat \<Rightarrow> ('e, 'w, nat) code" where
  "cell_6 L tr cylinder =
     bindN (call L 6 (Call ''transformations.euler_matrix'')
              [VObj tr, VInt 1, VInt 0, VInt 0, VKw ''axes'' (VStr ''sxyz'')]) (\<lambda>rotation.
     bindN (call L 6 (Call ''apply_transform'') [VObj cylinder, VObj rotation]) (\<lambda>_.
     bindN (call L 6 (Call ''show'') [VObj cylinder]) (\<lambda>_.
     bindN (call L 6 (GetAttr ''moment_inertia'') [VObj cylinder]) (\<lambda>inertia.
     bindN (call L 6 Print [VObj inertia]) (\<lambda>out.
     bindN (call L 6 Display [VObj out]) (\<lambda>_.
     returnN rotation))))))"

text \<open>Cell 9: the imports of the second part.
  \<^verbatim>\<open>
  from os import path
  import pinocchio as pin
  from pinocchio.visualize import MeshcatVisualizer
  import meshcat
  \<close>\<close>

definition cell_9 :: "('e, 'w) lib \<Rightarrow> ('e, 'w, nat \<times> nat \<times> nat \<times> nat) code" where
  "cell_9 L =
     bindN (call L 9 (ImportFrom ''os'' ''path'') []) (\<lambda>path.
     bindN (call L 9 (Import ''pinocchio'') []) (\<lambda>pin.
     bindN (call L 9 (ImportFrom ''pinocchio.visualize'' ''MeshcatVisualizer'') []) (\<lambda>MeshcatVisualizer.
     bindN (call L 9 (Import ''meshcat'') []) (\<lambda>meshcat.
     returnN (path, pin, MeshcatVisualizer, meshcat)))))"

text \<open>Cell 10: the URDF file is parsed.
  \<^verbatim>\<open>
  MODEL_NAME = "two_bodies.urdf"
  ROOT = path.abspath('')
  FOLDER_PATH = path.join(ROOT, '')
  MODEL_PATH = path.join(FOLDER_PATH, MODEL_NAME)

  model, collision_model, visual_model = pin.buildModelsFromUrdf(MODEL_PATH, None, pin.JointModelFreeFlyer())
  data = model.createData()
  \<close>
  The arguments of \<open>buildModelsFromUrdf\<close> are evaluated before the call, so
  \<open>pin.JointModelFreeFlyer()\<close> comes first.\<close>

definition MODEL_NAME :: val where
  "MODEL_NAME = VStr ''two_bodies.urdf''"

definition cell_10 ::
  "('e, 'w) lib \<Rightarrow> nat \<Rightarrow> nat \<Rightarrow> ('e, 'w, nat \<times> nat \<times> nat \<times> nat) code" where
  "cell_10 L path pin =
     bindN (call L 10 (Call ''abspath'') [VObj path, VStr '''']) (\<lambda>ROOT.
     bindN (call L 10 (Call ''join'') [VObj path, VObj ROOT, VStr '''']) (\<lambda>FOLDER_PATH.
     bindN (call L 10 (Call ''join'') [VObj path, VObj FOLDER_PATH, MODEL_NAME]) (\<lambda>MODEL_PATH.
     bindN (call L 10 (Call ''JointModelFreeFlyer'') [VObj pin]) (\<lambda>root_joint.
     bindN (call3 L 10 (Call ''buildModelsFromUrdf'')
              [VObj pin, VObj MODEL_PATH, VNone, VObj root_joint]) (\<lambda>(model, collision_model, visual_model).
     bindN (call L 10 (Call ''createData'') [VObj model]) (\<lambda>data.
     returnN (model, collision_model, visual_model, data)))))))"

text \<open>Cell 11: the viewer.
  \<^verbatim>\<open>
  viz = MeshcatVisualizer(model, collision_model, visual_model)
  viz.viewer = meshcat.Visualizer(zmq_url="tcp://127.0.0.1:6000")
  viz.clean()
  # meshcat-server --open

  # Load the robot in the viewer.
  viz.loadViewerModel()

  # Display a robot configuration.
  q0 = pin.neutral(model)
  viz.display(q0)
  viz.displayVisuals(True)
  \<close>\<close>

definition cell_11 ::
  "('e, 'w) lib \<Rightarrow> nat \<Rightarrow> nat \<Rightarrow> nat \<Rightarrow> nat \<Rightarrow> nat \<Rightarrow> nat \<Rightarrow> ('e, 'w, nat) code" where
  "cell_11 L pin MeshcatVisualizer meshcat model collision_model visual_model =
     bindN (call L 11 Invoke
              [VObj MeshcatVisualizer, VObj model, VObj collision_model, VObj visual_model]) (\<lambda>viz.
     bindN (call L 11 (Call ''Visualizer'')
              [VObj meshcat, VKw ''zmq_url'' (VStr ''tcp://127.0.0.1:6000'')]) (\<lambda>viewer.
     bindN (call L 11 (SetAttr ''viewer'') [VObj viz, VObj viewer]) (\<lambda>_.
     bindN (call L 11 (Call ''clean'') [VObj viz]) (\<lambda>_.
     bindN (call L 11 (Call ''loadViewerModel'') [VObj viz]) (\<lambda>_.
     bindN (call L 11 (Call ''neutral'') [VObj pin, VObj model]) (\<lambda>q0.
     bindN (call L 11 (Call ''display'') [VObj viz, VObj q0]) (\<lambda>_.
     bindN (call L 11 (Call ''displayVisuals'') [VObj viz, VBool True]) (\<lambda>out.
     bindN (call L 11 Display [VObj out]) (\<lambda>_.
     returnN viz)))))))))"

text \<open>Cell 12: the viewer is embedded in the notebook when it can be.
  \<^verbatim>\<open>
  hasattr(viz.viewer, 'jupyter_cell') and viz.viewer.jupyter_cell()
  \<close>
  Python's \<open>x and y\<close> evaluates \<open>x\<close>; when it is false the value is \<open>x\<close> and
  \<open>y\<close> is not evaluated, otherwise the value is that of \<open>y\<close>.\<close>

definition cell_12 :: "('e, 'w) lib \<Rightarrow> nat \<Rightarrow> ('e, 'w, unit) code" where
  "cell_12 L viz =
     bindN (call L 12 (GetAttr ''viewer'') [VObj viz]) (\<lambda>viewer.
     bindN (call_bool L 12 Hasattr [VObj viewer, VStr ''jupyter_cell'']) (\<lambda>has.
     bindN (if has
            then bindN (call L 12 (GetAttr ''viewer'') [VObj viz]) (\<lambda>viewer.
                 bindN (call L 12 (Call ''jupyter_cell'') [VObj viewer]) (\<lambda>frame.
                 returnN (VObj frame)))
            else returnN (VBool False)) (\<lambda>out.
     bindN (call L 12 Display [out]) (\<lambda>_.
     returnN ()))))"

text \<open>Cells 14 to 19, the fields of the model:
  \<^verbatim>\<open>model.name\<close>, \<^verbatim>\<open>model.names.tolist()\<close>, \<^verbatim>\<open>model.joints.tolist()\<close>,
  \<^verbatim>\<open>model.jointPlacements.tolist()\<close>, \<^verbatim>\<open>model.inertias.tolist()\<close> and
  \<^verbatim>\<open>print(model.nq, model.nv)\<close>.\<close>

definition cell_14 :: "('e, 'w) lib \<Rightarrow> nat \<Rightarrow> ('e, 'w, unit) code" where
  "cell_14 L model =
     bindN (call L 14 (GetAttr ''name'') [VObj model]) (\<lambda>out.
     bindN (call L 14 Display [VObj out]) (\<lambda>_.
     returnN ()))"

definition cell_15 :: "('e, 'w) lib \<Rightarrow> nat \<Rightarrow> ('e, 'w, unit) code" where
  "cell_15 L model =
     bindN (call L 15 (GetAttr ''names'') [VObj model]) (\<lambda>names.
     bindN (call L 15 (Call ''tolist'') [VObj names]) (\<lambda>out.
     bindN (call L 15 Display [VObj out]) (\<lambda>_.
     returnN ())))"

definition cell_16 :: "('e, 'w) lib \<Rightarrow> nat \<Rightarrow> ('e, 'w, unit) code" where
  "cell_16 L model =
     bindN (call L 16 (GetAttr ''joints'') [VObj model]) (\<lambda>joints.
     bindN (call L 16 (Call ''tolist'') [VObj joints]) (\<lambda>out.
     bindN (call L 16 Display [VObj out]) (\<lambda>_.
     returnN ())))"

definition cell_17 :: "('e, 'w) lib \<Rightarrow> nat \<Rightarrow> ('e, 'w, unit) code" where
  "cell_17 L model =
     bindN (call L 17 (GetAttr ''jointPlacements'') [VObj model]) (\<lambda>jointPlacements.
     bindN (call L 17 (Call ''tolist'') [VObj jointPlacements]) (\<lambda>out.
     bindN (call L 17 Display [VObj out]) (\<lambda>_.
     returnN ())))"

definition cell_18 :: "('e, 'w) lib \<Rightarrow> nat \<Rightarrow> ('e, 'w, unit) code" where
  "cell_18 L model =
     bindN (call L 18 (GetAttr ''inertias'') [VObj model]) (\<lambda>inertias.
     bindN (call L 18 (Call ''tolist'') [VObj inertias]) (\<lambda>out.
     bindN (call L 18 Display [VObj out]) (\<lambda>_.
     returnN ())))"

definition cell_19 :: "('e, 'w) lib \<Rightarrow> nat \<Rightarrow> ('e, 'w, unit) code" where
  "cell_19 L model =
     bindN (call L 19 (GetAttr ''nq'') [VObj model]) (\<lambda>nq.
     bindN (call L 19 (GetAttr ''nv'') [VObj model]) (\<lambda>nv.
     bindN (call L 19 Print [VObj nq, VObj nv]) (\<lambda>out.
     bindN (call L 19 Display [VObj out]) (\<lambda>_.
     returnN ()))))"

text \<open>Cell 21: forward kinematics at the neutral configuration.
  \<^verbatim>\<open>
  q = pin.neutral(model)
  pin.framesForwardKinematics(model, data, q)
  \<close>\<close>

definition cell_21 :: "('e, 'w) lib \<Rightarrow> nat \<Rightarrow> nat \<Rightarrow> nat \<Rightarrow> ('e, 'w, unit) code" where
  "cell_21 L pin model data =
     bindN (call L 21 (Call ''neutral'') [VObj pin, VObj model]) (\<lambda>q.
     bindN (call L 21 (Call ''framesForwardKinematics'')
              [VObj pin, VObj model, VObj data, VObj q]) (\<lambda>out.
     bindN (call L 21 Display [VObj out]) (\<lambda>_.
     returnN ())))"

text \<open>Cells 22 to 32, the fields of the data:
  \<^verbatim>\<open>data.joints.tolist()\<close>, \<^verbatim>\<open>data.oMi.tolist()\<close>, \<^verbatim>\<open>data.oMf.tolist()\<close>,
  \<^verbatim>\<open>data.v.tolist()\<close>, \<^verbatim>\<open>data.a.tolist()\<close>, \<^verbatim>\<open>data.f.tolist()\<close>,
  \<^verbatim>\<open>data.M.tolist()\<close>, \<^verbatim>\<open>data.nle.tolist()\<close>, \<^verbatim>\<open>data.hg\<close>,
  \<^verbatim>\<open>data.Ag\<close> and \<^verbatim>\<open>data.Ig\<close>.\<close>

definition cell_22 :: "('e, 'w) lib \<Rightarrow> nat \<Rightarrow> ('e, 'w, unit) code" where
  "cell_22 L data =
     bindN (call L 22 (GetAttr ''joints'') [VObj data]) (\<lambda>joints.
     bindN (call L 22 (Call ''tolist'') [VObj joints]) (\<lambda>out.
     bindN (call L 22 Display [VObj out]) (\<lambda>_.
     returnN ())))"

definition cell_23 :: "('e, 'w) lib \<Rightarrow> nat \<Rightarrow> ('e, 'w, unit) code" where
  "cell_23 L data =
     bindN (call L 23 (GetAttr ''oMi'') [VObj data]) (\<lambda>oMi.
     bindN (call L 23 (Call ''tolist'') [VObj oMi]) (\<lambda>out.
     bindN (call L 23 Display [VObj out]) (\<lambda>_.
     returnN ())))"

definition cell_24 :: "('e, 'w) lib \<Rightarrow> nat \<Rightarrow> ('e, 'w, unit) code" where
  "cell_24 L data =
     bindN (call L 24 (GetAttr ''oMf'') [VObj data]) (\<lambda>oMf.
     bindN (call L 24 (Call ''tolist'') [VObj oMf]) (\<lambda>out.
     bindN (call L 24 Display [VObj out]) (\<lambda>_.
     returnN ())))"

definition cell_25 :: "('e, 'w) lib \<Rightarrow> nat \<Rightarrow> ('e, 'w, unit) code" where
  "cell_25 L data =
     bindN (call L 25 (GetAttr ''v'') [VObj data]) (\<lambda>v.
     bindN (call L 25 (Call ''tolist'') [VObj v]) (\<lambda>out.
     bindN (call L 25 Display [VObj out]) (\<lambda>_.
     returnN ())))"

definition cell_26 :: "('e, 'w) lib \<Rightarrow> nat \<Rightarrow> ('e, 'w, unit) code" where
  "cell_26 L data =
     bindN (call L 26 (GetAttr ''a'') [VObj data]) (\<lambda>a.
     bindN (call L 26 (Call ''tolist'') [VObj a]) (\<lambda>out.
     bindN (call L 26 Display [VObj out]) (\<lambda>_.
     returnN ())))"

definition cell_27 :: "('e, 'w) lib \<Rightarrow> nat \<Rightarrow> ('e, 'w, unit) code" where
  "cell_27 L data =
     bindN (call L 27 (GetAttr ''f'') [VObj data]) (\<lambda>f.
     bindN (call L 27 (Call ''tolist'') [VObj f]) (\<lambda>out.
     bindN (call L 27 Display [VObj out]) (\<lambda>_.
     returnN ())))"

definition cell_28 :: "('e, 'w) lib \<Rightarrow> nat \<Rightarrow> ('e, 'w, unit) code" where
  "cell_28 L data =
     bindN (call L 28 (GetAttr ''M'') [VObj data]) (\<lambda>M.
     bindN (call L 28 (Call ''tolist'') [VObj M]) (\<lambda>out.
     bindN (call L 28 Display [VObj out]) (\<lambda>_.
     returnN ())))"

definition cell_29 :: "('e, 'w) lib \<Rightarrow> nat \<Rightarrow> ('e, 'w, unit) code" where
  "cell_29 L data =
     bindN (call L 29 (GetAttr ''nle'') [VObj data]) (\<lambda>nle.
     bindN (call L 29 (Call ''tolist'') [VObj nle]) (\<lambda>out.
     bindN (call L 29 Display [VObj out]) (\<lambda>_.
     returnN ())))"

definition cell_30 :: "('e, 'w) lib \<Rightarrow> nat \<Rightarrow> ('e, 'w, unit) code" where
  "cell_30 L data =
     bindN (call L 30 (GetAttr ''hg'') [VObj data]) (\<lambda>out.
     bindN (call L 30 Display [VObj out]) (\<lambda>_.
     returnN ()))"

definition cell_31 :: "('e, 'w) lib \<Rightarrow> nat \<Rightarrow> ('e, 'w, unit) code" where
  "cell_31 L data =
     bindN (call L 31 (GetAttr ''Ag'') [VObj data]) (\<lambda>out.
     bindN (call L 31 Display [VObj out]) (\<lambda>_.
     returnN ()))"

definition cell_32 :: "('e, 'w) lib \<Rightarrow> nat \<Rightarrow> ('e, 'w, unit) code" where
  "cell_32 L data =
     bindN (call L 32 (GetAttr ''Ig'') [VObj data]) (\<lambda>out.
     bindN (call L 32 Display [VObj out]) (\<lambda>_.
     returnN ()))"

text \<open>Cell 33: the placement of the frame of \<open>body_two\<close>.
  \<^verbatim>\<open>
  LINK_NAME = "body_two"
  LINK_ID = model.getBodyId(LINK_NAME)
  q = pin.neutral(model)
  pin.framesForwardKinematics(model, data, q)
  iMd = data.oMf[LINK_ID]
  print(iMd)
  \<close>\<close>

definition LINK_NAME :: val where
  "LINK_NAME = VStr ''body_two''"

definition cell_33 :: "('e, 'w) lib \<Rightarrow> nat \<Rightarrow> nat \<Rightarrow> nat \<Rightarrow> ('e, 'w, unit) code" where
  "cell_33 L pin model data =
     bindN (call L 33 (Call ''getBodyId'') [VObj model, LINK_NAME]) (\<lambda>LINK_ID.
     bindN (call L 33 (Call ''neutral'') [VObj pin, VObj model]) (\<lambda>q.
     bindN (call L 33 (Call ''framesForwardKinematics'')
              [VObj pin, VObj model, VObj data, VObj q]) (\<lambda>_.
     bindN (call L 33 (GetAttr ''oMf'') [VObj data]) (\<lambda>oMf.
     bindN (call L 33 GetItem [VObj oMf, VObj LINK_ID]) (\<lambda>iMd.
     bindN (call L 33 Print [VObj iMd]) (\<lambda>out.
     bindN (call L 33 Display [VObj out]) (\<lambda>_.
     returnN ())))))))"

text \<open>Cells 34 to 41, a random rigid transform and its parts:
  \<^verbatim>\<open>M = pin.SE3.Random()\<close> and \<^verbatim>\<open>print(M)\<close>; \<^verbatim>\<open>M.rotation\<close>;
  \<^verbatim>\<open>M.translation\<close>; \<^verbatim>\<open>print(pin.SE3(M.rotation, M.translation))\<close>;
  \<^verbatim>\<open>print(M.inverse())\<close>; \<^verbatim>\<open>print(M * M.inverse())\<close>; \<^verbatim>\<open>print(M.action)\<close>;
  \<^verbatim>\<open>print(M.homogeneous)\<close>.\<close>

definition cell_34 :: "('e, 'w) lib \<Rightarrow> nat \<Rightarrow> ('e, 'w, nat) code" where
  "cell_34 L pin =
     bindN (call L 34 (Call ''SE3.Random'') [VObj pin]) (\<lambda>M.
     bindN (call L 34 Print [VObj M]) (\<lambda>out.
     bindN (call L 34 Display [VObj out]) (\<lambda>_.
     returnN M)))"

definition cell_35 :: "('e, 'w) lib \<Rightarrow> nat \<Rightarrow> ('e, 'w, unit) code" where
  "cell_35 L M =
     bindN (call L 35 (GetAttr ''rotation'') [VObj M]) (\<lambda>out.
     bindN (call L 35 Display [VObj out]) (\<lambda>_.
     returnN ()))"

definition cell_36 :: "('e, 'w) lib \<Rightarrow> nat \<Rightarrow> ('e, 'w, unit) code" where
  "cell_36 L M =
     bindN (call L 36 (GetAttr ''translation'') [VObj M]) (\<lambda>out.
     bindN (call L 36 Display [VObj out]) (\<lambda>_.
     returnN ()))"

definition cell_37 :: "('e, 'w) lib \<Rightarrow> nat \<Rightarrow> nat \<Rightarrow> ('e, 'w, unit) code" where
  "cell_37 L pin M =
     bindN (call L 37 (GetAttr ''rotation'') [VObj M]) (\<lambda>rotation.
     bindN (call L 37 (GetAttr ''translation'') [VObj M]) (\<lambda>translation.
     bindN (call L 37 (Call ''SE3'') [VObj pin, VObj rotation, VObj translation]) (\<lambda>copy.
     bindN (call L 37 Print [VObj copy]) (\<lambda>out.
     bindN (call L 37 Display [VObj out]) (\<lambda>_.
     returnN ())))))"

definition cell_38 :: "('e, 'w) lib \<Rightarrow> nat \<Rightarrow> ('e, 'w, unit) code" where
  "cell_38 L M =
     bindN (call L 38 (Call ''inverse'') [VObj M]) (\<lambda>inverse.
     bindN (call L 38 Print [VObj inverse]) (\<lambda>out.
     bindN (call L 38 Display [VObj out]) (\<lambda>_.
     returnN ())))"

definition cell_39 :: "('e, 'w) lib \<Rightarrow> nat \<Rightarrow> ('e, 'w, unit) code" where
  "cell_39 L M =
     bindN (call L 39 (Call ''inverse'') [VObj M]) (\<lambda>inverse.
     bindN (call L 39 Mul [VObj M, VObj inverse]) (\<lambda>product.
     bindN (call L 39 Print [VObj product]) (\<lambda>out.
     bindN (call L 39 Display [VObj out]) (\<lambda>_.
     returnN ()))))"

definition cell_40 :: "('e, 'w) lib \<Rightarrow> nat \<Rightarrow> ('e, 'w, unit) code" where
  "cell_40 L M =
     bindN (call L 40 (GetAttr ''action'') [VObj M]) (\<lambda>action.
     bindN (call L 40 Print [VObj action]) (\<lambda>out.
     bindN (call L 40 Display [VObj out]) (\<lambda>_.
     returnN ())))"

definition cell_41 :: "('e, 'w) lib \<Rightarrow> nat \<Rightarrow> ('e, 'w, unit) code" where
  "cell_41 L M =
     bindN (call L 41 (GetAttr ''homogeneous'') [VObj M]) (\<lambda>homogeneous.
     bindN (call L 41 Print [VObj homogeneous]) (\<lambda>out.
     bindN (call L 41 Display [VObj out]) (\<lambda>_.
     returnN ())))"

subsection \<open>The notebook\<close>

text \<open>
  The notebook run from top to bottom: the code cells in the order of the file, each given the
  variables that earlier cells bound. A cell that raises ends the run. The other cells of the
  file (0, 1, 3, 5, 7, 8, 13 and 20) are markdown.
\<close>

definition notebook :: "('e, 'w) lib \<Rightarrow> ('e, 'w, unit) code" where
  "notebook L =
     bindN (cell_2 L) (\<lambda>(tr, box_one).
     bindN (cell_4 L tr) (\<lambda>cylinder.
     bindN (cell_6 L tr cylinder) (\<lambda>rotation.
     bindN (cell_9 L) (\<lambda>(path, pin, MeshcatVisualizer, meshcat).
     bindN (cell_10 L path pin) (\<lambda>(model, collision_model, visual_model, data).
     bindN (cell_11 L pin MeshcatVisualizer meshcat model collision_model visual_model) (\<lambda>viz.
     bindN (cell_12 L viz) (\<lambda>_.
     bindN (cell_14 L model) (\<lambda>_.
     bindN (cell_15 L model) (\<lambda>_.
     bindN (cell_16 L model) (\<lambda>_.
     bindN (cell_17 L model) (\<lambda>_.
     bindN (cell_18 L model) (\<lambda>_.
     bindN (cell_19 L model) (\<lambda>_.
     bindN (cell_21 L pin model data) (\<lambda>_.
     bindN (cell_22 L data) (\<lambda>_.
     bindN (cell_23 L data) (\<lambda>_.
     bindN (cell_24 L data) (\<lambda>_.
     bindN (cell_25 L data) (\<lambda>_.
     bindN (cell_26 L data) (\<lambda>_.
     bindN (cell_27 L data) (\<lambda>_.
     bindN (cell_28 L data) (\<lambda>_.
     bindN (cell_29 L data) (\<lambda>_.
     bindN (cell_30 L data) (\<lambda>_.
     bindN (cell_31 L data) (\<lambda>_.
     bindN (cell_32 L data) (\<lambda>_.
     bindN (cell_33 L pin model data) (\<lambda>_.
     bindN (cell_34 L pin) (\<lambda>M.
     bindN (cell_35 L M) (\<lambda>_.
     bindN (cell_36 L M) (\<lambda>_.
     bindN (cell_37 L pin M) (\<lambda>_.
     bindN (cell_38 L M) (\<lambda>_.
     bindN (cell_39 L M) (\<lambda>_.
     bindN (cell_40 L M) (\<lambda>_.
     cell_41 L M)))))))))))))))))))))))))))))))))"

text \<open>A run starts in a world \<open>w\<close> with nothing recorded yet.\<close>

definition run :: "('e, 'w) lib \<Rightarrow> 'w \<Rightarrow> ('e + unit) \<times> ('e, 'w) kernel" where
  "run L w = notebook L \<lparr>world = w, trace = []\<rparr>"

section \<open>What a run looks like from outside\<close>

text \<open>
  Which objects the libraries hand out differs from run to run. \<open>shape\<close> forgets the
  identity of objects and keeps everything the notebook itself wrote: literals, keyword names
  and the form of the arguments. The \<open>label\<close> of an event is the cell, the operation and the
  shape of its arguments; its \<open>outline\<close> adds the shape of the result, \<open>None\<close> when the
  operation raised.
\<close>

fun shape :: "val \<Rightarrow> val" where
  "shape (VObj n) = VObj 0"
| "shape (VList vs) = VList (map shape vs)"
| "shape (VKw k v) = VKw k (shape v)"
| "shape v = v"

type_synonym label = "nat \<times> op \<times> val list"

type_synonym step = "label \<times> val option"

definition label :: "'e event \<Rightarrow> label" where
  "label ev = (cell_of ev, op_of ev, map shape (args_of ev))"

definition outline :: "'e event \<Rightarrow> step" where
  "outline ev = (label ev, case result_of ev of Inl e \<Rightarrow> None | Inr v \<Rightarrow> Some (shape v))"

definition returned :: "'e event \<Rightarrow> bool" where
  "returned ev = (case result_of ev of Inl e \<Rightarrow> False | Inr v \<Rightarrow> True)"

definition completed :: "('e + unit) \<times> ('e, 'w) kernel \<Rightarrow> bool" where
  "completed r = (case fst r of Inl e \<Rightarrow> False | Inr u \<Rightarrow> True)"

definition events :: "('e + unit) \<times> ('e, 'w) kernel \<Rightarrow> 'e event list" where
  "events r = trace (snd r)"

subsection \<open>The script of the notebook\<close>

text \<open>
  The steps of each cell written out as data: what a run that is not interrupted performs,
  cell by cell. \<open>ret k f args\<close> is a step of cell \<open>k\<close> that returns an object. The script
  of cell 12 depends on the answer \<open>b\<close> of \<open>hasattr\<close>.
\<close>

definition ret :: "nat \<Rightarrow> op \<Rightarrow> val list \<Rightarrow> step" where
  "ret k f args = ((k, f, args), Some (VObj 0))"

definition script_2 :: "step list" where
  "script_2 =
    [ret 2 (Import ''trimesh'') [],
     ret 2 (Call ''primitives.Box'')
       [VObj 0, VKw ''extents'' (VList [VFloat 4 1, VFloat 2 1, VFloat 1 1])],
     ret 2 (SetAttr ''density'') [VObj 0, VInt 7800],
     ret 2 (GetAttr ''mass'') [VObj 0],
     ret 2 (FString ''mass = {box_one.mass}'') [VObj 0],
     ret 2 Print [VObj 0],
     ret 2 (GetAttr ''moment_inertia'') [VObj 0],
     ret 2 (FString ''inertia = {box_one.moment_inertia}'') [VObj 0],
     ret 2 Print [VObj 0],
     ret 2 Display [VObj 0]]"

definition script_4 :: "step list" where
  "script_4 =
    [ret 4 (Call ''primitives.Cylinder'')
       [VObj 0, VKw ''radius'' (VFloat 5 2), VKw ''height'' (VFloat 15 2)],
     ret 4 (GetAttr ''volume'') [VObj 0],
     ret 4 TrueDiv [VInt 5, VObj 0],
     ret 4 (SetAttr ''density'') [VObj 0, VObj 0],
     ret 4 (GetAttr ''moment_inertia'') [VObj 0],
     ret 4 Print [VObj 0],
     ret 4 Display [VObj 0]]"

definition script_6 :: "step list" where
  "script_6 =
    [ret 6 (Call ''transformations.euler_matrix'')
       [VObj 0, VInt 1, VInt 0, VInt 0, VKw ''axes'' (VStr ''sxyz'')],
     ret 6 (Call ''apply_transform'') [VObj 0, VObj 0],
     ret 6 (Call ''show'') [VObj 0],
     ret 6 (GetAttr ''moment_inertia'') [VObj 0],
     ret 6 Print [VObj 0],
     ret 6 Display [VObj 0]]"

definition script_9 :: "step list" where
  "script_9 =
    [ret 9 (ImportFrom ''os'' ''path'') [],
     ret 9 (Import ''pinocchio'') [],
     ret 9 (ImportFrom ''pinocchio.visualize'' ''MeshcatVisualizer'') [],
     ret 9 (Import ''meshcat'') []]"

definition script_10 :: "step list" where
  "script_10 =
    [ret 10 (Call ''abspath'') [VObj 0, VStr ''''],
     ret 10 (Call ''join'') [VObj 0, VObj 0, VStr ''''],
     ret 10 (Call ''join'') [VObj 0, VObj 0, VStr ''two_bodies.urdf''],
     ret 10 (Call ''JointModelFreeFlyer'') [VObj 0],
     ((10, Call ''buildModelsFromUrdf'', [VObj 0, VObj 0, VNone, VObj 0]),
      Some (VList [VObj 0, VObj 0, VObj 0])),
     ret 10 (Call ''createData'') [VObj 0]]"

definition script_11 :: "step list" where
  "script_11 =
    [ret 11 Invoke [VObj 0, VObj 0, VObj 0, VObj 0],
     ret 11 (Call ''Visualizer'') [VObj 0, VKw ''zmq_url'' (VStr ''tcp://127.0.0.1:6000'')],
     ret 11 (SetAttr ''viewer'') [VObj 0, VObj 0],
     ret 11 (Call ''clean'') [VObj 0],
     ret 11 (Call ''loadViewerModel'') [VObj 0],
     ret 11 (Call ''neutral'') [VObj 0, VObj 0],
     ret 11 (Call ''display'') [VObj 0, VObj 0],
     ret 11 (Call ''displayVisuals'') [VObj 0, VBool True],
     ret 11 Display [VObj 0]]"

definition script_12 :: "bool \<Rightarrow> step list" where
  "script_12 b =
    [ret 12 (GetAttr ''viewer'') [VObj 0],
     ((12, Hasattr, [VObj 0, VStr ''jupyter_cell'']), Some (VBool b))]
    @ (if b
       then [ret 12 (GetAttr ''viewer'') [VObj 0],
             ret 12 (Call ''jupyter_cell'') [VObj 0],
             ret 12 Display [VObj 0]]
       else [ret 12 Display [VBool False]])"

text \<open>A cell that reads one field and shows it, and one that shows the field as a list.\<close>

definition show_field :: "nat \<Rightarrow> string \<Rightarrow> step list" where
  "show_field k a = [ret k (GetAttr a) [VObj 0], ret k Display [VObj 0]]"

definition show_list :: "nat \<Rightarrow> string \<Rightarrow> step list" where
  "show_list k a =
    [ret k (GetAttr a) [VObj 0], ret k (Call ''tolist'') [VObj 0], ret k Display [VObj 0]]"

definition script_14 :: "step list" where
  "script_14 = show_field 14 ''name''"

definition script_15 :: "step list" where
  "script_15 = show_list 15 ''names''"

definition script_16 :: "step list" where
  "script_16 = show_list 16 ''joints''"

definition script_17 :: "step list" where
  "script_17 = show_list 17 ''jointPlacements''"

definition script_18 :: "step list" where
  "script_18 = show_list 18 ''inertias''"

definition script_19 :: "step list" where
  "script_19 = 
    [ret 19 (GetAttr ''nq'') [VObj 0], ret 19 (GetAttr ''nv'') [VObj 0],
     ret 19 Print [VObj 0, VObj 0], ret 19 Display [VObj 0]]"

definition script_21 :: "step list" where
  "script_21 = 
    [ret 21 (Call ''neutral'') [VObj 0, VObj 0],
     ret 21 (Call ''framesForwardKinematics'') [VObj 0, VObj 0, VObj 0, VObj 0],
     ret 21 Display [VObj 0]]"

definition script_22 :: "step list" where
  "script_22 = show_list 22 ''joints''"

definition script_23 :: "step list" where
  "script_23 = show_list 23 ''oMi''"

definition script_24 :: "step list" where
  "script_24 = show_list 24 ''oMf''"

definition script_25 :: "step list" where
  "script_25 = show_list 25 ''v''"

definition script_26 :: "step list" where
  "script_26 = show_list 26 ''a''"

definition script_27 :: "step list" where
  "script_27 = show_list 27 ''f''"

definition script_28 :: "step list" where
  "script_28 = show_list 28 ''M''"

definition script_29 :: "step list" where
  "script_29 = show_list 29 ''nle''"

definition script_30 :: "step list" where
  "script_30 = show_field 30 ''hg''"

definition script_31 :: "step list" where
  "script_31 = show_field 31 ''Ag''"

definition script_32 :: "step list" where
  "script_32 = show_field 32 ''Ig''"

definition script_33 :: "step list" where
  "script_33 = 
    [ret 33 (Call ''getBodyId'') [VObj 0, VStr ''body_two''],
     ret 33 (Call ''neutral'') [VObj 0, VObj 0],
     ret 33 (Call ''framesForwardKinematics'') [VObj 0, VObj 0, VObj 0, VObj 0],
     ret 33 (GetAttr ''oMf'') [VObj 0],
     ret 33 GetItem [VObj 0, VObj 0],
     ret 33 Print [VObj 0],
     ret 33 Display [VObj 0]]"

definition script_34 :: "step list" where
  "script_34 = [ret 34 (Call ''SE3.Random'') [VObj 0], ret 34 Print [VObj 0], ret 34 Display [VObj 0]]"

definition script_35 :: "step list" where
  "script_35 = show_field 35 ''rotation''"

definition script_36 :: "step list" where
  "script_36 = show_field 36 ''translation''"

definition script_37 :: "step list" where
  "script_37 = 
    [ret 37 (GetAttr ''rotation'') [VObj 0], ret 37 (GetAttr ''translation'') [VObj 0],
     ret 37 (Call ''SE3'') [VObj 0, VObj 0, VObj 0],
     ret 37 Print [VObj 0], ret 37 Display [VObj 0]]"

definition script_38 :: "step list" where
  "script_38 = [ret 38 (Call ''inverse'') [VObj 0], ret 38 Print [VObj 0], ret 38 Display [VObj 0]]"

definition script_39 :: "step list" where
  "script_39 = 
    [ret 39 (Call ''inverse'') [VObj 0], ret 39 Mul [VObj 0, VObj 0],
     ret 39 Print [VObj 0], ret 39 Display [VObj 0]]"

definition script_40 :: "step list" where
  "script_40 = [ret 40 (GetAttr ''action'') [VObj 0], ret 40 Print [VObj 0], ret 40 Display [VObj 0]]"

definition script_41 :: "step list" where
  "script_41 = [ret 41 (GetAttr ''homogeneous'') [VObj 0], ret 41 Print [VObj 0], ret 41 Display [VObj 0]]"

text \<open>The script of the whole notebook, for either answer of \<open>hasattr\<close>.\<close>

definition script :: "bool \<Rightarrow> step list" where
  "script b =
     script_2 @ script_4 @ script_6 @ script_9 @ script_10 @ script_11 @ script_12 b
     @ script_14 @ script_15 @ script_16 @ script_17 @ script_18 @ script_19
     @ script_21
     @ script_22 @ script_23 @ script_24 @ script_25 @ script_26 @ script_27 @ script_28
     @ script_29 @ script_30 @ script_31 @ script_32
     @ script_33
     @ script_34 @ script_35 @ script_36 @ script_37 @ script_38 @ script_39 @ script_40
     @ script_41"

subsection \<open>Code that follows a script\<close>

text \<open>
  \<open>follows S m\<close>: from any state, the events that \<open>m\<close> adds to the trace are those of one
  of the scripts in \<open>S\<close>. When \<open>m\<close> returns, the outlines of the added events are a whole
  script. When \<open>m\<close> raises \<open>e\<close>, the last added event is an operation that raised \<open>e\<close>,
  the operations before it returned, and the events are the beginning of a script.
\<close>

definition seqs :: "'a list set \<Rightarrow> 'a list set \<Rightarrow> 'a list set" where
  "seqs A B = {a @ b |a b. a \<in> A \<and> b \<in> B}"

definition admits :: "step list set \<Rightarrow> 'e event list \<Rightarrow> 'e + 'a \<Rightarrow> bool" where
  "admits S t r =
     (case r of
        Inr x \<Rightarrow> map outline t \<in> S \<and> list_all returned t
      | Inl e \<Rightarrow> t \<noteq> [] \<and> result_of (last t) = Inl e \<and> list_all returned (butlast t) \<and>
          (\<exists>ls \<in> S. prefix (map outline (butlast t)) ls \<and> prefix (map label t) (map fst ls)))"

definition follows :: "step list set \<Rightarrow> ('e, 'w, 'a) code \<Rightarrow> bool" where
  "follows S m = (\<forall>s. \<exists>t. trace (snd (m s)) = trace s @ t \<and> admits S t (fst (m s)))"

subsection \<open>The answer of \<open>hasattr\<close>\<close>

text \<open>Whether \<open>hasattr\<close> answered \<open>True\<close> in the events of a run.\<close>

definition hasattr_answer :: "'e event list \<Rightarrow> bool" where
  "hasattr_answer t = list_ex (\<lambda>ev. op_of ev = Hasattr \<and> result_of ev = Inr (VBool True)) t"

subsection \<open>The stages of the data flow\<close>

text \<open>
  The stages that the specification names, read off the operations: the mesh library gives a
  mass or an inertia (\<open>x.mass\<close>, \<open>x.moment_inertia\<close>); the URDF file is parsed
  (\<open>pin.buildModelsFromUrdf\<close>); forward kinematics fills the data
  (\<open>pin.framesForwardKinematics\<close>); a field of the model is shown (what is printed or
  displayed in cells 14 to 19, the part headed "3. Model"); a field of the data is shown
  (what is printed or displayed in cells 22 to 33, the part headed "4. Data" after the
  forward kinematics of cell 21). Copying the inertia values into the URDF file is done by
  hand and is no operation of the notebook. All other operations belong to no stage.
\<close>

datatype stage = Inertia | Parse | Kinematics | InspectModel | InspectData

fun stage_of :: "label \<Rightarrow> stage option" where
  "stage_of (k, f, args) =
     (if f = GetAttr ''mass'' \<or> f = GetAttr ''moment_inertia'' then Some Inertia
      else if f = Call ''buildModelsFromUrdf'' then Some Parse
      else if f = Call ''framesForwardKinematics'' then Some Kinematics
      else if (f = Print \<or> f = Display) \<and> 14 \<le> k \<and> k \<le> 19 then Some InspectModel
      else if (f = Print \<or> f = Display) \<and> 22 \<le> k \<and> k \<le> 33 then Some InspectData
      else None)"

definition stages :: "label list \<Rightarrow> stage list" where
  "stages ls = List.map_filter stage_of ls"

text \<open>
  The position of a stage in the order that the specification gives: inertia values (1), the
  manual copy (2, not an operation), parsing (3), forward kinematics (4), and last the
  printing of fields of model and data (5).
\<close>

fun rank :: "stage \<Rightarrow> nat" where
  "rank Inertia = 1"
| "rank Parse = 3"
| "rank Kinematics = 4"
| "rank InspectModel = 5"
| "rank InspectData = 5"

definition in_stated_order :: "label list \<Rightarrow> bool" where
  "in_stated_order ls = sorted (map rank (stages ls))"

text \<open>The order in which the notebook goes through the stages.\<close>

definition pipeline :: "stage list" where
  "pipeline =
     replicate 4 Inertia @ [Parse] @ replicate 7 InspectModel @ [Kinematics]
     @ replicate 11 InspectData @ [Kinematics] @ replicate 2 InspectData"

subsection \<open>External interfaces\<close>

text \<open>
  What an operation touches outside the Python session, as far as the notebook's text shows
  it. \<open>print\<close> and the display of a cell's value write text; \<open>pin.buildModelsFromUrdf\<close>
  reads the URDF file; an operation that is given a ZeroMQ address (\<open>zmq_url=...\<close>)
  connects to that address over the network. The other three interfaces are the ones the
  specification rules out, recognised by the standard ways of reaching them from Python:
  the command line (\<open>sys.argv\<close>, \<open>argparse\<close>), environment variables
  (\<open>os.environ\<close>, \<open>os.getenv\<close>, \<open>os.path.expandvars\<close>) and stored state
  (\<open>open\<close>, and the \<open>write\<close>, \<open>save\<close>, \<open>dump\<close> and \<open>export\<close> calls of
  libraries).
\<close>

datatype interface =
    UrdfFile
  | PrintedText
  | Network string
  | CommandLine
  | Environment
  | StoredState

fun zmq_url :: "val \<Rightarrow> string list" where
  "zmq_url (VKw k (VStr u)) = (if k = ''zmq_url'' then [u] else [])"
| "zmq_url v = []"

fun interface_of :: "op \<Rightarrow> interface list" where
  "interface_of Print = [PrintedText]"
| "interface_of Display = [PrintedText]"
| "interface_of (Call p) =
     (if p = ''buildModelsFromUrdf'' then [UrdfFile]
      else if p \<in> set [''getenv'', ''expandvars''] then [Environment]
      else if p \<in> set [''open'', ''write'', ''save'', ''dump'', ''export''] then [StoredState]
      else [])"
| "interface_of (GetAttr a) =
     (if a = ''argv'' then [CommandLine] else if a = ''environ'' then [Environment] else [])"
| "interface_of (Import m) = (if m = ''argparse'' then [CommandLine] else [])"
| "interface_of f = []"

fun touches :: "label \<Rightarrow> (nat \<times> interface) list" where
  "touches (k, f, args) =
     map (Pair k) (interface_of f @ map Network (concat (map zmq_url args)))"

definition interfaces :: "label list \<Rightarrow> (nat \<times> interface) list" where
  "interfaces ls = concat (map touches ls)"

text \<open>The interfaces of a run other than the URDF file and printed text.\<close>

definition beyond_urdf_and_text :: "label list \<Rightarrow> (nat \<times> interface) list" where
  "beyond_urdf_and_text ls =
     filter (\<lambda>p. snd p \<noteq> UrdfFile \<and> snd p \<noteq> PrintedText) (interfaces ls)"

text \<open>The specification's sentence: nothing is touched but the URDF file and printed text.\<close>

definition touches_only_urdf_and_text :: "label list \<Rightarrow> bool" where
  "touches_only_urdf_and_text ls = (beyond_urdf_and_text ls = [])"

subsection \<open>Two libraries to run the notebook with\<close>

text \<open>
  A library in which every operation returns a new object and \<open>hasattr\<close> answers \<open>b\<close>;
  the world is the number of objects made so far. And a library in which the URDF file does
  not exist, so that \<open>pin.buildModelsFromUrdf\<close> raises.
\<close>

definition demo_lib :: "bool \<Rightarrow> (string, nat) lib" where
  "demo_lib b =
     \<lparr>api = (\<lambda>f args w. (Inr w, w + 1)),
      api3 = (\<lambda>f args w. (Inr (w, w + 1, w + 2), w + 3)),
      api_bool = (\<lambda>f args w. (Inr b, w))\<rparr>"

definition missing_file_lib :: "(string, nat) lib" where
  "missing_file_lib =
     \<lparr>api = (\<lambda>f args w. (Inr w, w + 1)),
      api3 = (\<lambda>f args w. (Inl ''two_bodies.urdf does not exist'', w)),
      api_bool = (\<lambda>f args w. (Inr True, w))\<rparr>"

section \<open>The URDF file\<close>

text \<open>
  A URDF file describes links and joints; a joint has a type (fixed or floating in this
  repository), a parent link and a child link (specification, section 3). Visual and collision
  geometry and inertial parameters play no part in the joint graph and are left out.
\<close>

datatype joint_type = Fixed | Floating

record joint =
  joint_name :: string
  joint_type :: joint_type
  parent :: string
  child :: string

record urdf =
  links :: "string list"
  joints :: "joint list"

text \<open>
  Modelled from the spec: the file \<open>two_bodies.urdf\<close> that the notebook loads is not among
  the sources. Its links and joints are taken from the description of the file in cell 1 of
  the notebook: the file contains three links, \<open>world\<close>, which acts as a fixed root,
  \<open>body_one\<close>, connected with \<open>world\<close> via \<open>fixed_joint\<close>, and \<open>body_two\<close>,
  related to \<open>world\<close> via \<open>floating_joint\<close>.
\<close>

definition two_bodies :: urdf where
  "two_bodies =
     \<lparr>links = [''world'', ''body_one'', ''body_two''],
      joints =
        [\<lparr>joint_name = ''fixed_joint'', joint_type = Fixed,
          parent = ''world'', child = ''body_one''\<rparr>,
         \<lparr>joint_name = ''floating_joint'', joint_type = Floating,
          parent = ''world'', child = ''body_two''\<rparr>]\<rparr>"

text \<open>
  The joint graph has the links as nodes and an edge from the parent to the child of every
  joint. It is a tree rooted at \<open>r\<close> when the links are distinct, every joint connects two
  links of the file, \<open>r\<close> is no joint's child, every other link is the child of exactly one
  joint, and going from any link to its parent again and again arrives at \<open>r\<close> within as
  many steps as there are links (so no link is above itself).
\<close>

definition parent_joints :: "urdf \<Rightarrow> string \<Rightarrow> joint list" where
  "parent_joints u l = filter (\<lambda>j. child j = l) (joints u)"

fun climb :: "urdf \<Rightarrow> nat \<Rightarrow> string \<Rightarrow> string" where
  "climb u 0 l = l"
| "climb u (Suc n) l =
     (case parent_joints u l of [] \<Rightarrow> l | j # js \<Rightarrow> climb u n (parent j))"

definition tree_rooted_at :: "urdf \<Rightarrow> string \<Rightarrow> bool" where
  "tree_rooted_at u r =
     (distinct (links u) \<and> r \<in> set (links u) \<and>
      list_all (\<lambda>j. parent j \<in> set (links u) \<and> child j \<in> set (links u)) (joints u) \<and>
      parent_joints u r = [] \<and>
      list_all (\<lambda>l. l = r \<or> length (parent_joints u l) = 1) (links u) \<and>
      list_all (\<lambda>l. climb u (length (links u)) l = r) (links u))"

definition connection :: "urdf \<Rightarrow> string \<Rightarrow> (joint_type \<times> string) list" where
  "connection u l = map (\<lambda>j. (joint_type j, parent j)) (parent_joints u l)"

section \<open>Every cell follows its script\<close>

subsection \<open>Rules for sequencing, calls and the conditional\<close>

text \<open>
  One rule for each way the notebook builds code: returning a value, one operation, two
  statements in sequence, an operation followed by the rest of a cell, and the operation
  whose answer chooses between two continuations.
\<close>

lemma follows_return: "follows {[]} (returnN x)"
  by (simp add: follows_def returnN_def admits_def)

lemma follows_nonempty: "follows S m \<Longrightarrow> S \<noteq> {}"
proof
  assume m: "follows S m" and "S = {}"
  then obtain t where "admits {} t (fst (m undefined))" unfolding follows_def by blast
  then show False by (cases "fst (m undefined)") (auto simp: admits_def)
qed

lemma follows_mono: "follows A m \<Longrightarrow> A \<subseteq> B \<Longrightarrow> follows B m"
  unfolding follows_def admits_def
  by (fastforce split: sum.splits)

lemma fst_outline: "fst (outline ev) = label ev"
  by (simp add: outline_def)

lemma follows_bind:
  assumes m: "follows A m" and f: "\<And>x. follows B (f x)"
  shows "follows (seqs A B) (bindN m f)"
  unfolding follows_def
proof
  fix s
  from m obtain t1 where t1: "trace (snd (m s)) = trace s @ t1" and a1: "admits A t1 (fst (m s))"
    unfolding follows_def by blast
  from f have "B \<noteq> {}" using follows_nonempty by blast
  then obtain b0 where b0: "b0 \<in> B" by blast
  show "\<exists>t. trace (snd (bindN m f s)) = trace s @ t \<and> admits (seqs A B) t (fst (bindN m f s))"
  proof (cases "fst (m s)")
    case (Inl e)
    then have eq: "bindN m f s = (Inl e, snd (m s))"
      by (cases "m s") (simp add: bindN_def)
    from a1 Inl obtain ls where ls: "ls \<in> A" "prefix (map outline (butlast t1)) ls"
        "prefix (map label t1) (map fst ls)" and rest: "t1 \<noteq> []" "result_of (last t1) = Inl e"
        "list_all returned (butlast t1)"
      by (auto simp: admits_def)
    have "ls @ b0 \<in> seqs A B" using ls(1) b0 by (auto simp: seqs_def)
    moreover have "prefix (map outline (butlast t1)) (ls @ b0)" using ls(2) by (simp add: prefix_prefix)
    moreover have "prefix (map label t1) (map fst (ls @ b0))" using ls(3) by (simp add: prefix_prefix)
    ultimately have "admits (seqs A B) t1 (fst (bindN m f s))"
      using rest eq by (auto simp: admits_def)
    with eq t1 show ?thesis by auto
  next
    case (Inr x)
    then have eq: "bindN m f s = f x (snd (m s))"
      by (cases "m s") (simp add: bindN_def)
    from a1 Inr have A1: "map outline t1 \<in> A" "list_all returned t1" by (auto simp: admits_def)
    from f[of x] obtain t2 where t2: "trace (snd (f x (snd (m s)))) = trace (snd (m s)) @ t2"
      and a2: "admits B t2 (fst (f x (snd (m s))))"
      unfolding follows_def by blast
    have "admits (seqs A B) (t1 @ t2) (fst (f x (snd (m s))))"
    proof (cases "fst (f x (snd (m s)))")
      case (Inr y)
      with a2 A1 show ?thesis by (auto simp: admits_def seqs_def)
    next
      case (Inl e)
      with a2 obtain ls where ls: "ls \<in> B" "prefix (map outline (butlast t2)) ls"
        "prefix (map label t2) (map fst ls)" and rest: "t2 \<noteq> []" "result_of (last t2) = Inl e"
        "list_all returned (butlast t2)"
        by (auto simp: admits_def)
      have lab: "map fst (map outline t1) = map label t1" by (simp add: fst_outline)
      have "map outline t1 @ ls \<in> seqs A B" using A1(1) ls(1) by (auto simp: seqs_def)
      moreover have "prefix (map outline (butlast (t1 @ t2))) (map outline t1 @ ls)"
        using rest(1) ls(2) by (simp add: butlast_append)
      moreover have "prefix (map label (t1 @ t2)) (map fst (map outline t1 @ ls))"
        using ls(3) unfolding map_append lab by simp
      ultimately have ex: "\<exists>ls \<in> seqs A B. prefix (map outline (butlast (t1 @ t2))) ls
          \<and> prefix (map label (t1 @ t2)) (map fst ls)"
        by blast
      have "t1 @ t2 \<noteq> []" "result_of (last (t1 @ t2)) = Inl e"
          "list_all returned (butlast (t1 @ t2))"
        using rest A1(2) by (simp_all add: butlast_append)
      with ex show ?thesis unfolding admits_def Inl by simp
    qed
    with eq t1 t2 show ?thesis by auto
  qed
qed

lemma follows_call:
  "follows {[((k, f, map shape args), Some (VObj 0))]} (call L k f args)"
  unfolding follows_def
proof
  fix s :: "('a, 'b) kernel"
  obtain r w where rw: "api L f args (world s) = (r, w)" by (cases "api L f args (world s)")
  show "\<exists>t. trace (snd (call L k f args s)) = trace s @ t \<and>
     admits {[((k, f, map shape args), Some (VObj 0))]} t (fst (call L k f args s))"
    by (rule exI[of _ "[Event k f args (map_sum id VObj r)]"])
       (cases r; simp add: call_def rw admits_def outline_def label_def returned_def)
qed


lemma follows_call3:
  "follows {[((k, f, map shape args), Some (VList [VObj 0, VObj 0, VObj 0]))]} (call3 L k f args)"
  unfolding follows_def
proof
  fix s :: "('a, 'b) kernel"
  obtain r w where rw: "api3 L f args (world s) = (r, w)" by (cases "api3 L f args (world s)")
  show "\<exists>t. trace (snd (call3 L k f args s)) = trace s @ t \<and>
     admits {[((k, f, map shape args), Some (VList [VObj 0, VObj 0, VObj 0]))]} t
       (fst (call3 L k f args s))"
    by (rule exI[of _ "[Event k f args (map_sum id tuple3 r)]"])
       (cases r; auto simp add: call3_def rw admits_def outline_def label_def returned_def tuple3_def)
qed

lemma follows_call_bool:
  "follows {[((k, f, map shape args), Some (VBool False))], [((k, f, map shape args), Some (VBool True))]}
     (call_bool L k f args)"
  unfolding follows_def
proof
  fix s :: "('a, 'b) kernel"
  obtain r w where rw: "api_bool L f args (world s) = (r, w)"
    by (cases "api_bool L f args (world s)")
  show "\<exists>t. trace (snd (call_bool L k f args s)) = trace s @ t \<and>
     admits {[((k, f, map shape args), Some (VBool False))], [((k, f, map shape args), Some (VBool True))]} t
       (fst (call_bool L k f args s))"
    by (rule exI[of _ "[Event k f args (map_sum id VBool r)]"])
       (cases r; auto simp add: call_bool_def rw admits_def outline_def label_def returned_def)
qed

lemma seqs_single: "seqs {a} {b} = {a @ b}"
  by (auto simp: seqs_def)

lemma follows_step:
  assumes "st = ((k, f, map shape args), Some (VObj 0))" and "\<And>x. follows {ls} (g x)"
  shows "follows {st # ls} (bindN (call L k f args) g)"
  using follows_bind[OF follows_call[of k f args L], of "{ls}" g] assms
  by (simp add: seqs_single)

lemma follows_step3:
  assumes "st = ((k, f, map shape args), Some (VList [VObj 0, VObj 0, VObj 0]))"
    and "\<And>a b c. follows {ls} (g (a, b, c))"
  shows "follows {st # ls} (bindN (call3 L k f args) g)"
proof -
  have "follows {ls} (g x)" for x using assms(2) by (cases x) auto
  then show ?thesis
    using follows_bind[OF follows_call3[of k f args L], of "{ls}" g] assms(1)
    by (simp add: seqs_single)
qed

lemma bindN_assoc: "bindN (bindN m f) g = bindN m (\<lambda>x. bindN (f x) g)"
  by (rule ext) (simp add: bindN_def split: prod.splits sum.splits)

lemma bindN_returnN: "bindN (returnN v) g = g v"
  by (rule ext) (simp add: bindN_def returnN_def)

lemma follows_step_bool:
  assumes g: "\<And>b. follows {ls b} (g b)"
  shows "follows {((k, f, map shape args), Some (VBool False)) # ls False,
                  ((k, f, map shape args), Some (VBool True)) # ls True}
           (bindN (call_bool L k f args) g)"
    (is "follows ?S _")
  unfolding follows_def
proof
  fix s :: "('a, 'b) kernel"
  obtain r w where rw: "api_bool L f args (world s) = (r, w)"
    by (cases "api_bool L f args (world s)")
  define ev :: "'a event" where "ev = Event k f args (map_sum id VBool r)"
  define s1 where "s1 = s\<lparr>world := w, trace := trace s @ [ev]\<rparr>"
  have c: "call_bool L k f args s = (r, s1)"
    by (simp add: call_bool_def rw s1_def ev_def)
  have lab: "label ev = (k, f, map shape args)" by (simp add: label_def ev_def)
  show "\<exists>t. trace (snd (bindN (call_bool L k f args) g s)) = trace s @ t \<and>
            admits ?S t (fst (bindN (call_bool L k f args) g s))"
  proof (cases r)
    case (Inl e)
    then have eq: "bindN (call_bool L k f args) g s = (Inl e, s1)" by (simp add: bindN_def c)
    have "admits ?S [ev] (fst (bindN (call_bool L k f args) g s))"
      unfolding eq admits_def using Inl by (simp add: lab) (simp add: ev_def)
    then show ?thesis by (intro exI[of _ "[ev]"]) (simp add: eq s1_def)
  next
    case (Inr b)
    then have eq: "bindN (call_bool L k f args) g s = g b s1" by (simp add: bindN_def c)
    have out: "outline ev = ((k, f, map shape args), Some (VBool b))"
      by (simp add: outline_def lab) (simp add: ev_def Inr)
    have ret: "returned ev" by (simp add: returned_def ev_def Inr)
    from g[of b] obtain t2 where t2: "trace (snd (g b s1)) = trace s1 @ t2"
      and a2: "admits {ls b} t2 (fst (g b s1))"
      unfolding follows_def by blast
    have "admits ?S (ev # t2) (fst (g b s1))"
    proof (cases "fst (g b s1)")
      case (Inr y)
      with a2 have "map outline t2 = ls b" "list_all returned t2" by (auto simp: admits_def)
      then show ?thesis unfolding admits_def Inr using out ret by (cases b) simp_all
    next
      case (Inl e)
      with a2 have h: "t2 \<noteq> []" "result_of (last t2) = Inl e" "list_all returned (butlast t2)"
        "prefix (map outline (butlast t2)) (ls b)" "prefix (map label t2) (map fst (ls b))"
        by (auto simp: admits_def)
      then show ?thesis unfolding admits_def Inl using out ret lab by (cases b) simp_all
    qed
    moreover have "trace s1 = trace s @ [ev]" by (simp add: s1_def)
    then have "trace (snd (g b s1)) = trace s @ ev # t2" using t2 by simp
    ultimately show ?thesis unfolding eq by blast
  qed
qed

subsection \<open>The cells\<close>

text \<open>
  A cell without a conditional follows its one script: the rule for an operation and the rest
  of the cell is applied once for every statement.
\<close>

lemma cell_2_follows: "follows {script_2} (cell_2 L )"
  unfolding cell_2_def script_2_def show_field_def show_list_def
  by ((rule follows_step, simp add: ret_def cylinder_mass_def LINK_NAME_def)+, rule follows_return)

lemma cell_4_follows: "follows {script_4} (cell_4 L tr)"
  unfolding cell_4_def script_4_def show_field_def show_list_def
  by ((rule follows_step, simp add: ret_def cylinder_mass_def LINK_NAME_def)+, rule follows_return)

lemma cell_6_follows: "follows {script_6} (cell_6 L tr cylinder)"
  unfolding cell_6_def script_6_def show_field_def show_list_def
  by ((rule follows_step, simp add: ret_def cylinder_mass_def LINK_NAME_def)+, rule follows_return)

lemma cell_9_follows: "follows {script_9} (cell_9 L )"
  unfolding cell_9_def script_9_def show_field_def show_list_def
  by ((rule follows_step, simp add: ret_def cylinder_mass_def LINK_NAME_def)+, rule follows_return)

lemma cell_11_follows: "follows {script_11} (cell_11 L pin MeshcatVisualizer meshcat model collision_model visual_model)"
  unfolding cell_11_def script_11_def show_field_def show_list_def
  by ((rule follows_step, simp add: ret_def cylinder_mass_def LINK_NAME_def)+, rule follows_return)

lemma cell_14_follows: "follows {script_14} (cell_14 L model)"
  unfolding cell_14_def script_14_def show_field_def show_list_def
  by ((rule follows_step, simp add: ret_def cylinder_mass_def LINK_NAME_def)+, rule follows_return)

lemma cell_15_follows: "follows {script_15} (cell_15 L model)"
  unfolding cell_15_def script_15_def show_field_def show_list_def
  by ((rule follows_step, simp add: ret_def cylinder_mass_def LINK_NAME_def)+, rule follows_return)

lemma cell_16_follows: "follows {script_16} (cell_16 L model)"
  unfolding cell_16_def script_16_def show_field_def show_list_def
  by ((rule follows_step, simp add: ret_def cylinder_mass_def LINK_NAME_def)+, rule follows_return)

lemma cell_17_follows: "follows {script_17} (cell_17 L model)"
  unfolding cell_17_def script_17_def show_field_def show_list_def
  by ((rule follows_step, simp add: ret_def cylinder_mass_def LINK_NAME_def)+, rule follows_return)

lemma cell_18_follows: "follows {script_18} (cell_18 L model)"
  unfolding cell_18_def script_18_def show_field_def show_list_def
  by ((rule follows_step, simp add: ret_def cylinder_mass_def LINK_NAME_def)+, rule follows_return)

lemma cell_19_follows: "follows {script_19} (cell_19 L model)"
  unfolding cell_19_def script_19_def show_field_def show_list_def
  by ((rule follows_step, simp add: ret_def cylinder_mass_def LINK_NAME_def)+, rule follows_return)

lemma cell_21_follows: "follows {script_21} (cell_21 L pin model data)"
  unfolding cell_21_def script_21_def show_field_def show_list_def
  by ((rule follows_step, simp add: ret_def cylinder_mass_def LINK_NAME_def)+, rule follows_return)

lemma cell_22_follows: "follows {script_22} (cell_22 L data)"
  unfolding cell_22_def script_22_def show_field_def show_list_def
  by ((rule follows_step, simp add: ret_def cylinder_mass_def LINK_NAME_def)+, rule follows_return)

lemma cell_23_follows: "follows {script_23} (cell_23 L data)"
  unfolding cell_23_def script_23_def show_field_def show_list_def
  by ((rule follows_step, simp add: ret_def cylinder_mass_def LINK_NAME_def)+, rule follows_return)

lemma cell_24_follows: "follows {script_24} (cell_24 L data)"
  unfolding cell_24_def script_24_def show_field_def show_list_def
  by ((rule follows_step, simp add: ret_def cylinder_mass_def LINK_NAME_def)+, rule follows_return)

lemma cell_25_follows: "follows {script_25} (cell_25 L data)"
  unfolding cell_25_def script_25_def show_field_def show_list_def
  by ((rule follows_step, simp add: ret_def cylinder_mass_def LINK_NAME_def)+, rule follows_return)

lemma cell_26_follows: "follows {script_26} (cell_26 L data)"
  unfolding cell_26_def script_26_def show_field_def show_list_def
  by ((rule follows_step, simp add: ret_def cylinder_mass_def LINK_NAME_def)+, rule follows_return)

lemma cell_27_follows: "follows {script_27} (cell_27 L data)"
  unfolding cell_27_def script_27_def show_field_def show_list_def
  by ((rule follows_step, simp add: ret_def cylinder_mass_def LINK_NAME_def)+, rule follows_return)

lemma cell_28_follows: "follows {script_28} (cell_28 L data)"
  unfolding cell_28_def script_28_def show_field_def show_list_def
  by ((rule follows_step, simp add: ret_def cylinder_mass_def LINK_NAME_def)+, rule follows_return)

lemma cell_29_follows: "follows {script_29} (cell_29 L data)"
  unfolding cell_29_def script_29_def show_field_def show_list_def
  by ((rule follows_step, simp add: ret_def cylinder_mass_def LINK_NAME_def)+, rule follows_return)

lemma cell_30_follows: "follows {script_30} (cell_30 L data)"
  unfolding cell_30_def script_30_def show_field_def show_list_def
  by ((rule follows_step, simp add: ret_def cylinder_mass_def LINK_NAME_def)+, rule follows_return)

lemma cell_31_follows: "follows {script_31} (cell_31 L data)"
  unfolding cell_31_def script_31_def show_field_def show_list_def
  by ((rule follows_step, simp add: ret_def cylinder_mass_def LINK_NAME_def)+, rule follows_return)

lemma cell_32_follows: "follows {script_32} (cell_32 L data)"
  unfolding cell_32_def script_32_def show_field_def show_list_def
  by ((rule follows_step, simp add: ret_def cylinder_mass_def LINK_NAME_def)+, rule follows_return)

lemma cell_33_follows: "follows {script_33} (cell_33 L pin model data)"
  unfolding cell_33_def script_33_def show_field_def show_list_def
  by ((rule follows_step, simp add: ret_def cylinder_mass_def LINK_NAME_def)+, rule follows_return)

lemma cell_34_follows: "follows {script_34} (cell_34 L pin)"
  unfolding cell_34_def script_34_def show_field_def show_list_def
  by ((rule follows_step, simp add: ret_def cylinder_mass_def LINK_NAME_def)+, rule follows_return)

lemma cell_35_follows: "follows {script_35} (cell_35 L M)"
  unfolding cell_35_def script_35_def show_field_def show_list_def
  by ((rule follows_step, simp add: ret_def cylinder_mass_def LINK_NAME_def)+, rule follows_return)

lemma cell_36_follows: "follows {script_36} (cell_36 L M)"
  unfolding cell_36_def script_36_def show_field_def show_list_def
  by ((rule follows_step, simp add: ret_def cylinder_mass_def LINK_NAME_def)+, rule follows_return)

lemma cell_37_follows: "follows {script_37} (cell_37 L pin M)"
  unfolding cell_37_def script_37_def show_field_def show_list_def
  by ((rule follows_step, simp add: ret_def cylinder_mass_def LINK_NAME_def)+, rule follows_return)

lemma cell_38_follows: "follows {script_38} (cell_38 L M)"
  unfolding cell_38_def script_38_def show_field_def show_list_def
  by ((rule follows_step, simp add: ret_def cylinder_mass_def LINK_NAME_def)+, rule follows_return)

lemma cell_39_follows: "follows {script_39} (cell_39 L M)"
  unfolding cell_39_def script_39_def show_field_def show_list_def
  by ((rule follows_step, simp add: ret_def cylinder_mass_def LINK_NAME_def)+, rule follows_return)

lemma cell_40_follows: "follows {script_40} (cell_40 L M)"
  unfolding cell_40_def script_40_def show_field_def show_list_def
  by ((rule follows_step, simp add: ret_def cylinder_mass_def LINK_NAME_def)+, rule follows_return)

lemma cell_41_follows: "follows {script_41} (cell_41 L M)"
  unfolding cell_41_def script_41_def show_field_def show_list_def
  by ((rule follows_step, simp add: ret_def cylinder_mass_def LINK_NAME_def)+, rule follows_return)

lemma cell_10_follows: "follows {script_10} (cell_10 L path pin)"
  unfolding cell_10_def script_10_def
  apply ((rule follows_step, simp add: ret_def MODEL_NAME_def)+)
  apply (rule follows_step3, simp)
  apply (simp only: prod.case)
  apply ((rule follows_step, simp add: ret_def)+, rule follows_return)
  done

text \<open>
  Cell 12 follows one of two scripts. After \<open>hasattr\<close> has answered, what is left of the
  cell follows the script for that answer.
\<close>

lemma cell_12_follows: "follows {script_12 False, script_12 True} (cell_12 L viz)"
proof -
  let ?rest = "\<lambda>b. if b
       then [ret 12 (GetAttr ''viewer'') [VObj 0],
             ret 12 (Call ''jupyter_cell'') [VObj 0],
             ret 12 Display [VObj 0]]
       else [ret 12 Display [VBool False]]"
  have rest: "follows {?rest has}
     (bindN (if has
            then bindN (call L 12 (GetAttr ''viewer'') [VObj viz]) (\<lambda>viewer.
                 bindN (call L 12 (Call ''jupyter_cell'') [VObj viewer]) (\<lambda>frame.
                 returnN (VObj frame)))
            else returnN (VBool False)) (\<lambda>out.
     bindN (call L 12 Display [out]) (\<lambda>_.
     returnN ())))" for has
  proof (cases has)
    case True
    then have eq: "has = True" by simp
    show ?thesis unfolding eq if_True bindN_assoc bindN_returnN
      by ((rule follows_step, simp add: ret_def)+, rule follows_return)
  next
    case False
    then have eq: "has = False" by simp
    show ?thesis unfolding eq if_False bindN_returnN
      by ((rule follows_step, simp add: ret_def)+, rule follows_return)
  qed
  have "follows (seqs {[ret 12 (GetAttr ''viewer'') [VObj 0]]}
           {((12, Hasattr, map shape [VObj 0, VStr ''jupyter_cell'']), Some (VBool False)) # ?rest False,
            ((12, Hasattr, map shape [VObj 0, VStr ''jupyter_cell'']), Some (VBool True)) # ?rest True})
          (cell_12 L viz)"
    unfolding cell_12_def
    apply (rule follows_bind)
     apply (rule follows_mono[OF follows_call], simp add: ret_def)
    apply (rule follows_mono[OF follows_step_bool[where ls = ?rest]])
     apply (rule rest)
    apply simp
    done
  then show ?thesis
    by (rule follows_mono) (auto simp: seqs_def script_12_def)
qed

subsection \<open>The notebook\<close>

text \<open>
  The notebook is the sequence of its cells, so it follows the scripts of the cells one after
  the other: \<open>script False\<close> or \<open>script True\<close>.
\<close>

lemma follows_case_prod: "(\<And>a b. follows S (h a b)) \<Longrightarrow> follows S (case_prod h x)"
  by (cases x) simp

lemma seqs_left: "seqs {a} B = (@) a ` B"
  by (auto simp: seqs_def)

lemma seqs_right: "seqs A {b} = (\<lambda>a. a @ b) ` A"
  by (auto simp: seqs_def)

lemmas cells_follow =
  cell_2_follows cell_4_follows cell_6_follows cell_9_follows cell_10_follows cell_11_follows
  cell_12_follows cell_14_follows cell_15_follows cell_16_follows cell_17_follows
  cell_18_follows cell_19_follows cell_21_follows cell_22_follows cell_23_follows
  cell_24_follows cell_25_follows cell_26_follows cell_27_follows cell_28_follows
  cell_29_follows cell_30_follows cell_31_follows cell_32_follows cell_33_follows
  cell_34_follows cell_35_follows cell_36_follows cell_37_follows cell_38_follows
  cell_39_follows cell_40_follows cell_41_follows

lemma notebook_steps:
  "follows
     (seqs {script_2}
      (seqs {script_4}
      (seqs {script_6}
      (seqs {script_9}
      (seqs {script_10}
      (seqs {script_11}
      (seqs {script_12 False, script_12 True}
      (seqs {script_14}
      (seqs {script_15}
      (seqs {script_16}
      (seqs {script_17}
      (seqs {script_18}
      (seqs {script_19}
      (seqs {script_21}
      (seqs {script_22}
      (seqs {script_23}
      (seqs {script_24}
      (seqs {script_25}
      (seqs {script_26}
      (seqs {script_27}
      (seqs {script_28}
      (seqs {script_29}
      (seqs {script_30}
      (seqs {script_31}
      (seqs {script_32}
      (seqs {script_33}
      (seqs {script_34}
      (seqs {script_35}
      (seqs {script_36}
      (seqs {script_37}
      (seqs {script_38}
      (seqs {script_39}
      (seqs {script_40}
      ({script_41}))))))))))))))))))))))))))))))))))
     (notebook L)"
  unfolding notebook_def
  by (intro follows_bind follows_case_prod cells_follow)

lemma notebook_follows: "follows {script False, script True} (notebook L)"
  by (rule follows_mono[OF notebook_steps]) (simp add: seqs_right seqs_left script_def)

section \<open>Every run follows the script\<close>

text \<open>
  The cell definitions applied to a state, the scripts written out, and the equations that
  compute a run step by step.
\<close>

lemmas cells_applied =
  cell_2_def[THEN fun_cong] cell_4_def[THEN fun_cong] cell_6_def[THEN fun_cong]
  cell_9_def[THEN fun_cong] cell_10_def[THEN fun_cong] cell_11_def[THEN fun_cong]
  cell_12_def[THEN fun_cong] cell_14_def[THEN fun_cong] cell_15_def[THEN fun_cong]
  cell_16_def[THEN fun_cong] cell_17_def[THEN fun_cong] cell_18_def[THEN fun_cong]
  cell_19_def[THEN fun_cong] cell_21_def[THEN fun_cong] cell_22_def[THEN fun_cong]
  cell_23_def[THEN fun_cong] cell_24_def[THEN fun_cong] cell_25_def[THEN fun_cong]
  cell_26_def[THEN fun_cong] cell_27_def[THEN fun_cong] cell_28_def[THEN fun_cong]
  cell_29_def[THEN fun_cong] cell_30_def[THEN fun_cong] cell_31_def[THEN fun_cong]
  cell_32_def[THEN fun_cong] cell_33_def[THEN fun_cong] cell_34_def[THEN fun_cong]
  cell_35_def[THEN fun_cong] cell_36_def[THEN fun_cong] cell_37_def[THEN fun_cong]
  cell_38_def[THEN fun_cong] cell_39_def[THEN fun_cong] cell_40_def[THEN fun_cong]
  cell_41_def[THEN fun_cong]

lemmas scripts_unfolded =
  script_def script_2_def script_4_def script_6_def script_9_def script_10_def script_11_def
  script_12_def script_14_def script_15_def script_16_def script_17_def script_18_def
  script_19_def script_21_def script_22_def script_23_def script_24_def script_25_def
  script_26_def script_27_def script_28_def script_29_def script_30_def script_31_def
  script_32_def script_33_def script_34_def script_35_def script_36_def script_37_def
  script_38_def script_39_def script_40_def script_41_def show_field_def show_list_def ret_def

lemmas run_simps = run_def notebook_def cells_applied bindN_def returnN_def call_def call3_def
  call_bool_def tuple3_def cylinder_mass_def MODEL_NAME_def LINK_NAME_def

lemma run_admits: "admits {script False, script True} (events (run L w)) (fst (run L w))"
proof -
  obtain t where "trace (snd (run L w)) = [] @ t" and "admits {script False, script True} t (fst (run L w))"
    using notebook_follows[of L, unfolded follows_def, rule_format, of "\<lparr>world = w, trace = []\<rparr>"]
    unfolding run_def by auto
  then show ?thesis by (simp add: events_def)
qed

lemma labels_of_outline: "map outline t = ls \<Longrightarrow> map label t = map fst ls"
  by (auto simp: fst_outline)

lemma run_labels: "\<exists>b. prefix (map label (events (run L w))) (map fst (script b))"
proof (cases "fst (run L w)")
  case (Inl e)
  with run_admits[of L w] show ?thesis by (auto simp: admits_def)
next
  case (Inr u)
  with run_admits[of L w] have "map outline (events (run L w)) \<in> {script False, script True}"
    by (simp add: admits_def)
  then obtain b where "map outline (events (run L w)) = script b" by blast
  then have "map label (events (run L w)) = map fst (script b)" by (rule labels_of_outline)
  then show ?thesis by auto
qed

lemma run_outline:
  assumes "completed (run L w)"
  shows "\<exists>b. map outline (events (run L w)) = script b"
proof -
  from assms obtain u where "fst (run L w) = Inr u"
    by (cases "fst (run L w)") (simp_all add: completed_def)
  with run_admits[of L w] have "map outline (events (run L w)) \<in> {script False, script True}"
    by (simp add: admits_def)
  then show ?thesis by blast
qed

subsection \<open>Facts about the script\<close>

lemma pipeline_unfolded:
  "pipeline =
     [Inertia, Inertia, Inertia, Inertia, Parse,
      InspectModel, InspectModel, InspectModel, InspectModel, InspectModel, InspectModel,
      InspectModel, Kinematics,
      InspectData, InspectData, InspectData, InspectData, InspectData, InspectData,
      InspectData, InspectData, InspectData, InspectData, InspectData, Kinematics,
      InspectData, InspectData]"
  by (simp add: pipeline_def eval_nat_numeral)

lemma script_stages: "stages (map fst (script b)) = pipeline"
  unfolding pipeline_unfolded
  by (cases b) (simp_all add: scripts_unfolded stages_def List.map_filter_simps)

lemma script_cells_sorted: "sorted (map fst (map fst (script b)))"
  by (cases b) (simp_all add: scripts_unfolded)

lemma script_beyond:
  "beyond_urdf_and_text (map fst (script b)) = [(11, Network ''tcp://127.0.0.1:6000'')]"
  by (cases b) (simp_all add: scripts_unfolded beyond_urdf_and_text_def interfaces_def)

lemma script_answer:
  "list_ex (\<lambda>st. fst (snd (fst st)) = Hasattr \<and> snd st = Some (VBool True)) (script b) = b"
  by (cases b) (simp_all add: scripts_unfolded)

lemma prefix_map_filter: "prefix xs ys \<Longrightarrow> prefix (List.map_filter f xs) (List.map_filter f ys)"
  by (auto simp: prefix_def List.map_filter_def)

lemma prefix_concat_map: "prefix xs ys \<Longrightarrow> prefix (concat (map f xs)) (concat (map f ys))"
  by (auto simp: prefix_def)

lemma prefix_filter: "prefix xs ys \<Longrightarrow> prefix (filter P xs) (filter P ys)"
  by (auto simp: prefix_def)

lemma prefix_sorted: "prefix xs ys \<Longrightarrow> sorted ys \<Longrightarrow> sorted xs"
  by (auto simp: prefix_def sorted_append)

lemma answer_of_outline:
  "hasattr_answer t =
     list_ex (\<lambda>st. fst (snd (fst st)) = Hasattr \<and> snd st = Some (VBool True)) (map outline t)"
proof -
  have "(op_of ev = Hasattr \<and> result_of ev = Inr (VBool True)) \<longleftrightarrow>
        (fst (snd (fst (outline ev))) = Hasattr \<and> snd (outline ev) = Some (VBool True))" for ev :: "'a event"
  proof (cases "result_of ev")
    case (Inl e)
    then show ?thesis by (simp add: outline_def)
  next
    case (Inr v)
    then show ?thesis by (cases v) (simp_all add: outline_def label_def)
  qed
  then show ?thesis by (simp add: hasattr_answer_def list_ex_iff)
qed

subsection \<open>Three runs\<close>

text \<open>
  The notebook run with the two libraries of the previous section: both answers of
  \<open>hasattr\<close> give a run that completes and performs the script, and with the URDF file
  missing the run ends in cell 10, at its 32nd operation.
\<close>

lemma demo_true:
  "case run (demo_lib True) 0 of (r, s) \<Rightarrow> r = Inr () \<and> map outline (trace s) = script True"
  by (simp add: run_simps demo_lib_def outline_def label_def scripts_unfolded)

lemma demo_false:
  "case run (demo_lib False) 0 of (r, s) \<Rightarrow> r = Inr () \<and> map outline (trace s) = script False"
  by (simp add: run_simps demo_lib_def outline_def label_def scripts_unfolded)

lemma missing_file:
  "case run missing_file_lib 0 of (r, s) \<Rightarrow>
     r = Inl ''two_bodies.urdf does not exist'' \<and> length (trace s) = 32 \<and>
     cell_of (last (trace s)) = 10 \<and> op_of (last (trace s)) = Call ''buildModelsFromUrdf''"
  by (simp add: run_simps missing_file_lib_def)

lemma demo_completed: "completed (run (demo_lib True) 0)" "completed (run (demo_lib False) 0)"
  using demo_true demo_false by (simp_all add: completed_def split: prod.splits)

lemma demo_outline:
  "map outline (events (run (demo_lib True) 0)) = script True"
  "map outline (events (run (demo_lib False) 0)) = script False"
  using demo_true demo_false by (simp_all add: events_def split: prod.splits)

section \<open>Error handling\<close>

text \<open>
  Claim C1. Every failure that arises while the notebook runs propagates out of the notebook
  unchanged. For every library and every world: an operation of the run that raised an
  exception \<open>e\<close> is the last operation of the run, and \<open>e\<close> itself is the outcome of
  the run (nothing after it is run, nothing is retried, the exception is neither caught nor
  replaced); and a run that ends with an exception \<open>e\<close> ends with the operation that
  raised \<open>e\<close>, so the notebook raises no exception of its own. The type of exceptions is
  a parameter of the model: the notebook defines none.
\<close>

theorem exceptions_propagate_unchanged:
  "(\<forall>ev \<in> set (events (run L w)). \<forall>e. result_of ev = Inl e \<longrightarrow>
       fst (run L w) = Inl e \<and> ev = last (events (run L w)))
   \<and> (\<forall>e. fst (run L w) = Inl e \<longrightarrow>
       events (run L w) \<noteq> [] \<and> result_of (last (events (run L w))) = Inl e)"
proof (cases "fst (run L w)")
  case (Inr u)
  with run_admits[of L w] have "list_all returned (events (run L w))" by (simp add: admits_def)
  then have "\<forall>ev \<in> set (events (run L w)). \<forall>e. result_of ev \<noteq> Inl e"
    by (auto simp: list_all_iff returned_def)
  with Inr show ?thesis by simp
next
  case (Inl e)
  let ?t = "events (run L w)"
  from Inl run_admits[of L w] have ne: "?t \<noteq> []" and lst: "result_of (last ?t) = Inl e"
    and bl: "list_all returned (butlast ?t)"
    by (simp_all add: admits_def)
  obtain ys y where t: "?t = ys @ [y]" using ne by (cases "?t" rule: rev_cases) auto
  have "ev = last ?t \<and> e' = e" if "ev \<in> set ?t" and "result_of ev = Inl e'" for ev e'
  proof -
    from that(1) t have "ev \<in> set ys \<or> ev = y" by auto
    moreover have "ev \<notin> set ys"
      using bl that(2) t by (auto simp: list_all_iff returned_def)
    ultimately have "ev = last ?t" using t by simp
    with lst that(2) show ?thesis by simp
  qed
  with Inl ne lst show ?thesis by auto
qed

text \<open>
  The theorem at a library in which the URDF file is missing: \<open>pin.buildModelsFromUrdf\<close>
  raises, it is the last operation of the run, and its exception is the outcome of the run.
\<close>

theorem exceptions_propagate_unchanged_witness:
  "last (events (run missing_file_lib 0)) \<in> set (events (run missing_file_lib 0))
   \<and> op_of (last (events (run missing_file_lib 0))) = Call ''buildModelsFromUrdf''
   \<and> result_of (last (events (run missing_file_lib 0))) = Inl ''two_bodies.urdf does not exist''
   \<and> fst (run missing_file_lib 0) = Inl ''two_bodies.urdf does not exist''"
proof -
  have r: "fst (run missing_file_lib 0) = Inl ''two_bodies.urdf does not exist''"
    and o: "op_of (last (events (run missing_file_lib 0))) = Call ''buildModelsFromUrdf''"
    using missing_file by (simp_all add: events_def split: prod.splits)
  from exceptions_propagate_unchanged[of missing_file_lib 0] r
  have "events (run missing_file_lib 0) \<noteq> []"
    and "result_of (last (events (run missing_file_lib 0))) = Inl ''two_bodies.urdf does not exist''"
    by simp_all
  with r o show ?thesis by simp
qed

section \<open>Control flow\<close>

lemma completed_outline:
  assumes "completed (run L w)"
  shows "map outline (events (run L w)) = script (hasattr_answer (events (run L w)))"
proof -
  from run_outline[OF assms] obtain b where b: "map outline (events (run L w)) = script b"
    by blast
  have "hasattr_answer (events (run L w)) = b"
    unfolding answer_of_outline b by (rule script_answer)
  with b show ?thesis by simp
qed

text \<open>
  Claim C6, as amended. The notebook is a straight-line sequence of operations with one
  conditional: in cell 12 the short-circuit \<open>and\<close> calls
  \<open>viz.viewer.jupyter_cell()\<close> only when \<open>hasattr(viz.viewer, 'jupyter_cell')\<close> is
  true. There is no loop, and apart from that answer the sequence of operations depends on no
  input and no intermediate value. For every library and every world, the operations of a run
  (cell, operation, and arguments up to the identity of objects) are an initial part of one
  of the two scripts; a run that completes performs exactly the script selected by the answer
  of \<open>hasattr\<close>, so two completed runs with the same answer perform the same operations.
\<close>

theorem operations_fixed_up_to_hasattr:
  "(\<exists>b. prefix (map label (events (run L w))) (map fst (script b)))
   \<and> (completed (run L w) \<longrightarrow>
        map outline (events (run L w)) = script (hasattr_answer (events (run L w))))"
  using run_labels[of L w] completed_outline[of L w] by blast

text \<open>
  The theorem at a library where \<open>hasattr\<close> answers \<open>True\<close>: the run completes,
  the answer is found in its events, and the run performs \<open>script True\<close>.
\<close>

theorem operations_fixed_up_to_hasattr_witness:
  "completed (run (demo_lib True) 0)
   \<and> hasattr_answer (events (run (demo_lib True) 0)) = True
   \<and> map outline (events (run (demo_lib True) 0)) = script True"
proof -
  have c: "completed (run (demo_lib True) 0)" by (rule demo_completed)
  have a: "hasattr_answer (events (run (demo_lib True) 0)) = True"
    unfolding answer_of_outline demo_outline by (rule script_answer)
  from operations_fixed_up_to_hasattr[of "demo_lib True" 0] c a show ?thesis by simp
qed

text \<open>
  Claim C6, as the specification states it, says that the sequence of operations depends on
  no intermediate value. Two runs that both complete, with libraries that differ only in the
  answer of \<open>hasattr\<close>, perform different sequences of operations.
\<close>

theorem operations_depend_on_hasattr:
  "completed (run (demo_lib True) 0) \<and> completed (run (demo_lib False) 0)
   \<and> map label (events (run (demo_lib True) 0)) \<noteq> map label (events (run (demo_lib False) 0))"
proof -
  have "length (script True) \<noteq> length (script False)"
    by (simp add: scripts_unfolded)
  then have "length (map label (events (run (demo_lib True) 0)))
             \<noteq> length (map label (events (run (demo_lib False) 0)))"
    unfolding labels_of_outline[OF demo_outline(1)] labels_of_outline[OF demo_outline(2)] by simp
  then have "map label (events (run (demo_lib True) 0)) \<noteq> map label (events (run (demo_lib False) 0))"
    by (rule contrapos_nn) (rule arg_cong)
  with demo_completed show ?thesis by simp
qed

section \<open>Data flow\<close>

text \<open>
  Claim C4, as amended. The stages of the data flow come in one fixed order, which is the
  order of the cells: the mesh library gives mass and inertia values (cells 2, 4 and 6), the
  URDF file is parsed (cell 10), fields of the model are shown (cells 14 to 19), forward
  kinematics fills the data (cell 21), fields of the data are shown (cells 22 to 32), and
  forward kinematics is run once more before the placement of \<open>body_two\<close> is printed
  (cell 33). For every library and every world, the stages of a run are an initial part of
  this sequence, the whole of it when the run completes, and the cells of the operations
  never go back: nothing is retried and no cell runs before an earlier one.
\<close>

theorem stages_in_notebook_order:
  "prefix (stages (map label (events (run L w)))) pipeline
   \<and> (completed (run L w) \<longrightarrow> stages (map label (events (run L w))) = pipeline)
   \<and> sorted (map cell_of (events (run L w)))"
proof -
  from run_labels[of L w] obtain b where
    b: "prefix (map label (events (run L w))) (map fst (script b))" by blast
  have 1: "prefix (stages (map label (events (run L w)))) pipeline"
    using prefix_map_filter[OF b, of stage_of] by (simp add: stages_def script_stages[unfolded stages_def])
  have 2: "stages (map label (events (run L w))) = pipeline" if "completed (run L w)"
  proof -
    from run_outline[OF that] obtain b' where "map outline (events (run L w)) = script b'" by blast
    then have "map label (events (run L w)) = map fst (script b')" by (rule labels_of_outline)
    then show ?thesis by (simp add: script_stages)
  qed
  have eq: "map fst (map label (events (run L w))) = map cell_of (events (run L w))"
    by (simp add: label_def comp_def)
  have "prefix (map fst (map label (events (run L w)))) (map fst (map fst (script b)))"
    using b by (rule map_mono_prefix)
  then have "sorted (map fst (map label (events (run L w))))"
    using script_cells_sorted by (rule prefix_sorted)
  then have 3: "sorted (map cell_of (events (run L w)))"
    by (simp only: eq)
  from 1 2 3 show ?thesis by blast
qed

text \<open>
  The theorem at a library where every operation returns: the run completes and goes through
  the whole pipeline.
\<close>

theorem stages_in_notebook_order_witness:
  "completed (run (demo_lib True) 0)
   \<and> stages (map label (events (run (demo_lib True) 0))) = pipeline"
  using stages_in_notebook_order[of "demo_lib True" 0] demo_completed(1) by simp

text \<open>
  Claim C4, as the specification states it, puts the printing of the fields of model and data
  last, after forward kinematics. In a completed run the fields of the model are shown
  (cells 14 to 19) before the first forward kinematics (cell 21), and the second forward
  kinematics (cell 33) comes after fields of the data have been shown: the stages are not in
  the stated order.
\<close>

theorem stated_order_counterexample:
  "\<not> in_stated_order (map label (events (run (demo_lib True) 0)))"
  unfolding in_stated_order_def labels_of_outline[OF demo_outline(1)] script_stages pipeline_unfolded
  by simp

section \<open>External interfaces of a run\<close>

text \<open>
  Claim C3, as amended. Beyond the URDF file and printed text a run touches one external
  interface: cell 11 opens a network connection to the meshcat server at
  \<open>tcp://127.0.0.1:6000\<close>. For every library and every world, what a run touches
  beyond the URDF file and printed text is at most that one connection, and exactly that
  connection when the run completes; in particular no run uses the command line, reads an
  environment variable or stores state.
\<close>

theorem one_network_connection:
  "prefix (beyond_urdf_and_text (map label (events (run L w))))
      [(11, Network ''tcp://127.0.0.1:6000'')]
   \<and> (completed (run L w) \<longrightarrow>
        beyond_urdf_and_text (map label (events (run L w)))
          = [(11, Network ''tcp://127.0.0.1:6000'')])"
proof -
  from run_labels[of L w] obtain b where
    b: "prefix (map label (events (run L w))) (map fst (script b))" by blast
  have 1: "prefix (beyond_urdf_and_text (map label (events (run L w))))
      [(11, Network ''tcp://127.0.0.1:6000'')]"
  proof -
    have "prefix (interfaces (map label (events (run L w)))) (interfaces (map fst (script b)))"
      unfolding interfaces_def using b by (rule prefix_concat_map)
    then have "prefix (beyond_urdf_and_text (map label (events (run L w))))
        (beyond_urdf_and_text (map fst (script b)))"
      unfolding beyond_urdf_and_text_def by (rule prefix_filter)
    then show ?thesis unfolding script_beyond .
  qed
  have 2: "beyond_urdf_and_text (map label (events (run L w)))
          = [(11, Network ''tcp://127.0.0.1:6000'')]" if "completed (run L w)"
  proof -
    from run_outline[OF that] obtain b' where "map outline (events (run L w)) = script b'" by blast
    then have "map label (events (run L w)) = map fst (script b')" by (rule labels_of_outline)
    then show ?thesis by (simp add: script_beyond)
  qed
  from 1 2 show ?thesis by blast
qed

text \<open>
  The theorem at a library where every operation returns: the run completes and opens the
  connection.
\<close>

theorem one_network_connection_witness:
  "completed (run (demo_lib True) 0)
   \<and> beyond_urdf_and_text (map label (events (run (demo_lib True) 0)))
       = [(11, Network ''tcp://127.0.0.1:6000'')]"
  using one_network_connection[of "demo_lib True" 0] demo_completed(1) by simp

text \<open>
  Claim C3, as the specification states it, says that a run opens no network connection and
  touches nothing but the URDF file and printed text. A completed run does.
\<close>

theorem network_connection_counterexample:
  "\<not> touches_only_urdf_and_text (map label (events (run (demo_lib True) 0)))"
  unfolding touches_only_urdf_and_text_def labels_of_outline[OF demo_outline(1)] script_beyond
  by simp

section \<open>The joint graph of the URDF file\<close>

text \<open>
  Claim C2. The joint graph of \<open>two_bodies.urdf\<close> is a tree rooted at the link
  \<open>world\<close>: the file has exactly the three links \<open>world\<close>, \<open>body_one\<close> and
  \<open>body_two\<close>; \<open>body_one\<close> is connected to \<open>world\<close> by a fixed joint and
  \<open>body_two\<close> by a floating joint, each by that joint only; \<open>world\<close> has no
  parent joint; and there is no cycle.
\<close>

theorem two_bodies_tree:
  "links two_bodies = [''world'', ''body_one'', ''body_two'']
   \<and> connection two_bodies ''body_one'' = [(Fixed, ''world'')]
   \<and> connection two_bodies ''body_two'' = [(Floating, ''world'')]
   \<and> connection two_bodies ''world'' = []
   \<and> tree_rooted_at two_bodies ''world''"
  by (simp add: two_bodies_def connection_def parent_joints_def tree_rooted_at_def eval_nat_numeral)

end
